theory Spec2Isabelle
  imports Main "HOL-Library.AList"
begin

section \<open>JavaScript values\<close>

text \<open>
  The service inspects its arguments structurally (\<^verbatim>\<open>'position' in args\<close>), so arguments,
  requests and responses are plain JavaScript values. An object is the list of its own
  properties in insertion order; assigning to a property that exists keeps its place,
  assigning to a new one appends it (\<open>AList.update\<close>). Numbers are the integers the
  protocol uses (lines, characters, levels).
\<close>

datatype jsval =
    JUndefined
  | JNull
  | JBool bool
  | JNum int
  | JStr string
  | JArr "jsval list"
  | JObj "(string \<times> jsval) list"

datatype error =
    TypeError
  | UnexpectedTypeHierarchyType string
  | Rejected string

text \<open>\<^verbatim>\<open>!!v\<close>: the truthiness of a value.\<close>

fun truthy :: "jsval \<Rightarrow> bool" where
  "truthy JUndefined = False"
| "truthy JNull = False"
| "truthy (JBool b) = b"
| "truthy (JNum n) = (n \<noteq> 0)"
| "truthy (JStr s) = (s \<noteq> [])"
| "truthy (JArr xs) = True"
| "truthy (JObj fs) = True"

text \<open>\<^verbatim>\<open>o[k]\<close> on an object: the property's value, \<^verbatim>\<open>undefined\<close> when it has none.\<close>

definition field :: "(string \<times> jsval) list \<Rightarrow> string \<Rightarrow> jsval" where
  "field fs k = (case map_of fs k of None \<Rightarrow> JUndefined | Some v \<Rightarrow> v)"

text \<open>
  \<^verbatim>\<open>v.k\<close> on any value, for the keys read by the service (\<^verbatim>\<open>range\<close>, \<^verbatim>\<open>start\<close>,
  \<^verbatim>\<open>uri\<close>): reading a property of \<^verbatim>\<open>undefined\<close> or \<^verbatim>\<open>null\<close> throws a TypeError, a
  primitive or an array has no such property.
\<close>

fun getProp :: "jsval \<Rightarrow> string \<Rightarrow> error + jsval" where
  "getProp (JObj fs) k = Inr (field fs k)"
| "getProp JUndefined k = Inl TypeError"
| "getProp JNull k = Inl TypeError"
| "getProp v k = Inr JUndefined"

text \<open>\<^verbatim>\<open>o.k = v\<close> on an object.\<close>

fun setProp :: "jsval \<Rightarrow> string \<Rightarrow> jsval \<Rightarrow> jsval" where
  "setProp (JObj fs) k v = JObj (AList.update k v fs)"
| "setProp w k v = w"

section \<open>Type hierarchy protocol: direction helper\<close>

text \<open>
  \<^verbatim>\<open>TypeHierarchyType.flip\<close>. The enum's members are the strings \<^verbatim>\<open>'subtype'\<close> and
  \<^verbatim>\<open>'supertype'\<close>; the \<^verbatim>\<open>default\<close> branch throws an \<^verbatim>\<open>Error\<close> whose message quotes the
  argument.
\<close>

definition flip :: "string \<Rightarrow> error + string" where
  "flip type =
     (if type = ''subtype'' then Inr ''supertype''
      else if type = ''supertype'' then Inr ''subtype''
      else Inl (UnexpectedTypeHierarchyType
                  (''Unexpected type hierarchy type: '' @ type @ ''.'')))"

section \<open>Features, emitters and the service registry\<close>

text \<open>
  Features are objects with identity: the service's map and the event handlers hold
  references to them. A reference is a number, the store \<open>heap\<close> maps it to the feature's
  fields. A reference that the store does not know never occurs in the source; the model
  leaves the state unchanged there.
\<close>

type_synonym fid = nat

datatype kind = Initialized | Disposed

text \<open>
  The subscribers of a feature's two events. \<open>ServiceOnInitialized L g c\<close> and
  \<open>ServiceOnDisposed L g c\<close> are the two closures that \<^verbatim>\<open>TypeHierarchyService.register\<close>
  subscribes for \<^verbatim>\<open>newFeature = g\<close>, with the captured \<^verbatim>\<open>languageId = L\<close> and the
  \<^verbatim>\<open>toDisposeOnFeatureDispose\<close> collection \<open>c\<close> of that call. \<open>Observer i\<close> is any
  other subscriber; it only takes note of the event.
\<close>

datatype handler =
    ServiceOnInitialized string fid nat
  | ServiceOnDisposed string fid nat
  | Observer nat

fun is_Observer :: "handler \<Rightarrow> bool" where
  "is_Observer (Observer i) = True"
| "is_Observer h = False"

text \<open>
  A \<^verbatim>\<open>TypeHierarchyFeature\<close>: its language, the callbacks of its two emitters in
  registration order, and the \<^verbatim>\<open>_providers\<close> of the base class
  (registration identifier and options of every registration it holds).
\<close>

record feature =
  languageId :: string
  onInitializedEmitter :: "handler list"
  onDisposedEmitter :: "handler list"
  providers :: "(nat \<times> jsval) list"

text \<open>
  What an outside observer can see happen, in order: an event delivered to a subscriber,
  a registration with the language client, and the writes of the service's map.
\<close>

datatype event =
    Delivered fid kind handler
  | Registered fid nat jsval
  | MapSet string fid
  | MapDelete string

text \<open>
  The whole state: the feature store, the service's \<^verbatim>\<open>features\<close> map (a JavaScript
  \<^verbatim>\<open>Map\<close>, so an association list in insertion order), the number of
  \<^verbatim>\<open>DisposableCollection\<close>s the service has created, the supply of \<^verbatim>\<open>v4()\<close> identifiers,
  and the log of observable events.
\<close>

record state =
  heap :: "fid \<Rightarrow> feature option"
  features :: "(string \<times> fid) list"
  collections :: nat
  uuids :: nat
  trace :: "event list"

definition log :: "event \<Rightarrow> state \<Rightarrow> state" where
  "log e s = s\<lparr>trace := trace s @ [e]\<rparr>"

text \<open>
  A call either returns (\<open>Done\<close>) or throws because the call stack is used up
  (\<open>Exhausted\<close>, the engine's RangeError); the state reached is kept in both cases.
  \<open>andThen\<close> is the sequence of two statements: what follows a statement that throws is
  skipped.
\<close>

datatype result = Done (final: state) | Exhausted (final: state)

definition andThen :: "result \<Rightarrow> (state \<Rightarrow> result) \<Rightarrow> result" where
  "andThen r k = (case r of Done s \<Rightarrow> k s | Exhausted s \<Rightarrow> Exhausted s)"

subsection \<open>Emitter and disposables\<close>

text \<open>
  Modelled from the spec: the list of subscribers of \<^verbatim>\<open>Emitter\<close> (\<^verbatim>\<open>@theia/core\<close>, not
  among the sources). An emitter keeps its subscribers in registration order; these are
  the subscribers of the feature's \<^verbatim>\<open>onInitializedEmitter\<close> and
  \<^verbatim>\<open>onDisposedEmitter\<close>.
\<close>

definition callbacks :: "kind \<Rightarrow> fid \<Rightarrow> state \<Rightarrow> handler list" where
  "callbacks k f s =
     (case heap s f of
        None \<Rightarrow> []
      | Some F \<Rightarrow> (case k of Initialized \<Rightarrow> onInitializedEmitter F
                            | Disposed \<Rightarrow> onDisposedEmitter F))"

text \<open>
  Modelled from the spec: \<^verbatim>\<open>Emitter.event\<close> (not among the sources), called as
  \<^verbatim>\<open>feature.onInitialized(h)\<close> and \<^verbatim>\<open>feature.onDisposed(h)\<close>: the new subscriber comes
  last.
\<close>

definition subscribe :: "kind \<Rightarrow> fid \<Rightarrow> handler \<Rightarrow> state \<Rightarrow> state" where
  "subscribe k f h s =
     (case heap s f of
        None \<Rightarrow> s
      | Some F \<Rightarrow>
          s\<lparr>heap := (heap s)(f \<mapsto>
              (case k of
                 Initialized \<Rightarrow> F\<lparr>onInitializedEmitter := onInitializedEmitter F @ [h]\<rparr>
               | Disposed \<Rightarrow> F\<lparr>onDisposedEmitter := onDisposedEmitter F @ [h]\<rparr>))\<rparr>)"

text \<open>
  Modelled from the spec: \<^verbatim>\<open>Emitter.fire\<close> (not among the sources). The event is
  delivered synchronously to the subscribers the emitter has when \<^verbatim>\<open>fire\<close> is called, in
  registration order; \<open>call\<close> runs the body of a subscriber. A subscriber that throws
  does not block the delivery to the later ones: the emitter catches the error and goes on
  from the state the subscriber left, so \<^verbatim>\<open>fire\<close> itself always returns. Each delivery is
  logged.
\<close>

fun fire ::
  "(handler \<Rightarrow> state \<Rightarrow> result) \<Rightarrow> fid \<Rightarrow> kind \<Rightarrow> handler list \<Rightarrow> state \<Rightarrow> result" where
  "fire call f k [] s = Done s"
| "fire call f k (h # hs) s = fire call f k hs (final (call h (log (Delivered f k h) s)))"

text \<open>
  Modelled from the spec: \<^verbatim>\<open>DisposableCollection.dispose\<close> (\<^verbatim>\<open>@theia/core\<close>, not among
  the sources), for the collection \<^verbatim>\<open>toDisposeOnFeatureDispose\<close> of a \<^verbatim>\<open>register\<close> call.
  The collection \<open>c\<close> holds the two subscriptions that \<^verbatim>\<open>register\<close> made on feature
  \<open>g\<close>; disposing it removes both handlers from the feature's emitters.
\<close>

definition toDisposeOnFeatureDispose_dispose :: "string \<Rightarrow> fid \<Rightarrow> nat \<Rightarrow> state \<Rightarrow> state" where
  "toDisposeOnFeatureDispose_dispose L g c s =
     (case heap s g of
        None \<Rightarrow> s
      | Some G \<Rightarrow>
          s\<lparr>heap := (heap s)(g \<mapsto>
              G\<lparr>onInitializedEmitter := remove1 (ServiceOnInitialized L g c) (onInitializedEmitter G),
                onDisposedEmitter := remove1 (ServiceOnDisposed L g c) (onDisposedEmitter G)\<rparr>)\<rparr>)"

subsection \<open>The base class of the feature\<close>

text \<open>
  Modelled from the spec: \<^verbatim>\<open>TextDocumentFeature.register\<close> (the language client's
  registration primitive, not among the sources), called as
  \<^verbatim>\<open>this.register(this.messages, {id, registerOptions})\<close>. It records the registration
  under the identifier, with the provider that \<^verbatim>\<open>registerLanguageProvider\<close> returns.
\<close>

definition TextDocumentFeature_register :: "fid \<Rightarrow> nat \<Rightarrow> jsval \<Rightarrow> state \<Rightarrow> state" where
  "TextDocumentFeature_register f ident registerOptions s =
     (case heap s f of
        None \<Rightarrow> s
      | Some F \<Rightarrow>
          log (Registered f ident registerOptions)
            (s\<lparr>heap := (heap s)(f \<mapsto>
                F\<lparr>providers := AList.update ident registerOptions (providers F)\<rparr>)\<rparr>))"

text \<open>
  Modelled from the spec: \<^verbatim>\<open>TextDocumentFeature.dispose\<close> (not among the sources),
  called as \<^verbatim>\<open>super.dispose()\<close>. It disposes every provider the feature holds and forgets
  them. The provider of this feature (\<^verbatim>\<open>registerLanguageProvider\<close>, in the source)
  disposes \<^verbatim>\<open>toDispose\<close>, the collection of the feature's two emitters, which drops all
  their subscribers; a feature without a registration has no provider.
\<close>

definition TextDocumentFeature_dispose :: "fid \<Rightarrow> state \<Rightarrow> state" where
  "TextDocumentFeature_dispose f s =
     (case heap s f of
        None \<Rightarrow> s
      | Some F \<Rightarrow>
          if providers F = [] then s
          else s\<lparr>heap := (heap s)(f \<mapsto>
                  F\<lparr>onInitializedEmitter := [], onDisposedEmitter := [], providers := []\<rparr>)\<rparr>)"

subsection \<open>The service's map\<close>

text \<open>\<^verbatim>\<open>this.features.set(languageId, newFeature)\<close>.\<close>

definition features_set :: "string \<Rightarrow> fid \<Rightarrow> state \<Rightarrow> state" where
  "features_set L g s = log (MapSet L g) (s\<lparr>features := AList.update L g (features s)\<rparr>)"

text \<open>
  \<^verbatim>\<open>this.features.delete(languageId)\<close>. Deleting a key that the map does not have changes
  nothing and is not logged.
\<close>

definition features_delete :: "string \<Rightarrow> state \<Rightarrow> state" where
  "features_delete L s =
     (if map_of (features s) L = None then s
      else log (MapDelete L) (s\<lparr>features := AList.delete L (features s)\<rparr>))"

subsection \<open>Disposal and the handlers of the service\<close>

text \<open>
  \<^verbatim>\<open>TypeHierarchyFeature.dispose\<close>, and the bodies of the subscribers: the two closures
  of \<^verbatim>\<open>TypeHierarchyService.register\<close> and an observer. They call each other:
  \<^verbatim>\<open>dispose\<close> fires Disposed, and both closures of the service call \<^verbatim>\<open>dispose\<close> on the
  feature mapped for their language. The first argument is the room of the call stack,
  counted in nested \<^verbatim>\<open>dispose\<close> calls: a \<^verbatim>\<open>dispose\<close> call for which no room is left
  throws.
\<close>

fun dispose :: "nat \<Rightarrow> fid \<Rightarrow> state \<Rightarrow> result"
and invoke :: "nat \<Rightarrow> handler \<Rightarrow> state \<Rightarrow> result"
where
  "dispose 0 f s = Exhausted s"
| "dispose (Suc n) f s =
     andThen (fire (\<lambda>h s'. invoke n h s') f Disposed (callbacks Disposed f s) s)
       (\<lambda>s'. Done (TextDocumentFeature_dispose f s'))"
| "invoke n (Observer i) s = Done s"
| "invoke n (ServiceOnInitialized L g c) s =
     andThen
       (case map_of (features s) L of
          None \<Rightarrow> Done s
        | Some oldFeature \<Rightarrow> dispose n oldFeature s)
       (\<lambda>s'. Done (features_set L g s'))"
| "invoke n (ServiceOnDisposed L g c) s =
     andThen
       (case map_of (features s) L of
          None \<Rightarrow> Done s
        | Some mapped \<Rightarrow>
            andThen (dispose n mapped s) (\<lambda>s'. Done (features_delete L s')))
       (\<lambda>s'. Done (toDisposeOnFeatureDispose_dispose L g c s'))"

subsection \<open>Negotiation\<close>

text \<open>
  The server capability \<^verbatim>\<open>capabilitiesExt.typeHierarchy\<close>: absent or a boolean by its
  declared type; \<^verbatim>\<open>initialize\<close> merges it with \<^verbatim>\<open>Object.assign\<close>, so it may also be an
  object of registration options. \<open>supported\<close> is its truthiness.
\<close>

datatype capability = Absent | Flag bool | Options "(string \<times> jsval) list"

fun supported :: "capability \<Rightarrow> bool" where
  "supported Absent = False"
| "supported (Flag b) = b"
| "supported (Options ps) = True"

text \<open>
  \<^verbatim>\<open>Object.assign({}, { documentSelector: documentSelector }, capabilitiesExt.typeHierarchy)\<close>:
  a boolean source has no property to copy; the properties of an options object are
  written over the target in their order.
\<close>

fun registerOptions :: "jsval \<Rightarrow> capability \<Rightarrow> jsval" where
  "registerOptions documentSelector (Options ps) =
     JObj (fold (\<lambda>(k, v). AList.update k v) ps [(''documentSelector'', documentSelector)])"
| "registerOptions documentSelector c = JObj [(''documentSelector'', documentSelector)]"

text \<open>
  \<^verbatim>\<open>TypeHierarchyFeature.initialize\<close>. \<^verbatim>\<open>v4()\<close> draws the next identifier of the supply.
\<close>

definition initialize :: "nat \<Rightarrow> fid \<Rightarrow> capability \<Rightarrow> jsval \<Rightarrow> state \<Rightarrow> result" where
  "initialize n f typeHierarchy documentSelector s =
     (if \<not> truthy documentSelector then Done s
      else if supported typeHierarchy then
        andThen (fire (\<lambda>h s'. invoke n h s') f Initialized (callbacks Initialized f s) s)
          (\<lambda>s'. let ident = uuids s' in
                Done (TextDocumentFeature_register f ident
                        (registerOptions documentSelector typeHierarchy)
                        (s'\<lparr>uuids := Suc ident\<rparr>)))
      else Done s)"

subsection \<open>The service\<close>

text \<open>\<^verbatim>\<open>new TypeHierarchyFeature(client)\<close> at the fresh reference \<open>f\<close>.\<close>

definition new_TypeHierarchyFeature :: "fid \<Rightarrow> string \<Rightarrow> state \<Rightarrow> state" where
  "new_TypeHierarchyFeature f L s =
     s\<lparr>heap := (heap s)(f \<mapsto>
         \<lparr>languageId = L, onInitializedEmitter = [], onDisposedEmitter = [], providers = []\<rparr>)\<rparr>"

text \<open>\<^verbatim>\<open>TypeHierarchyService.register\<close>.\<close>

definition register :: "fid \<Rightarrow> state \<Rightarrow> state" where
  "register newFeature s =
     (case heap s newFeature of
        None \<Rightarrow> s
      | Some F \<Rightarrow>
          let L = languageId F; c = collections s in
          subscribe Disposed newFeature (ServiceOnDisposed L newFeature c)
            (subscribe Initialized newFeature (ServiceOnInitialized L newFeature c)
               (s\<lparr>collections := Suc c\<rparr>)))"

text \<open>\<^verbatim>\<open>TypeHierarchyService.createNewFeature\<close>.\<close>

definition createNewFeature :: "fid \<Rightarrow> string \<Rightarrow> state \<Rightarrow> state" where
  "createNewFeature f L s = register f (new_TypeHierarchyFeature f L s)"

text \<open>The state before any feature exists.\<close>

definition empty_state :: state where
  "empty_state = \<lparr>heap = (\<lambda>f. None), features = [], collections = 0, uuids = 0, trace = []\<rparr>"

section \<open>Queries\<close>

text \<open>
  Modelled from the spec: the type guard \<^verbatim>\<open>Position.is\<close> of the protocol library (not
  among the sources). A valid position is an object with a numeric \<^verbatim>\<open>line\<close> and a numeric
  \<^verbatim>\<open>character\<close>.
\<close>

fun Position_is :: "jsval \<Rightarrow> bool" where
  "Position_is (JObj fs) =
     ((case field fs ''line'' of JNum l \<Rightarrow> True | _ \<Rightarrow> False) \<and>
      (case field fs ''character'' of JNum c \<Rightarrow> True | _ \<Rightarrow> False))"
| "Position_is v = False"

text \<open>
  Modelled from the spec: the type guard \<^verbatim>\<open>TextDocumentIdentifier.is\<close> of the protocol
  library (not among the sources). A valid text document identifier is an object with a
  string \<^verbatim>\<open>uri\<close>.
\<close>

fun TextDocumentIdentifier_is :: "jsval \<Rightarrow> bool" where
  "TextDocumentIdentifier_is (JObj fs) = (case field fs ''uri'' of JStr u \<Rightarrow> True | _ \<Rightarrow> False)"
| "TextDocumentIdentifier_is v = False"

text \<open>
  \<^verbatim>\<open>isTextDocumentPositionParams\<close>. The \<^verbatim>\<open>in\<close> operator throws a TypeError on a truthy
  primitive; an array is an object without the two properties.
\<close>

fun isTextDocumentPositionParams :: "jsval \<Rightarrow> error + bool" where
  "isTextDocumentPositionParams (JObj fs) =
     Inr (''position'' \<in> set (map fst fs) \<and> ''textDocument'' \<in> set (map fst fs) \<and>
          Position_is (field fs ''position'') \<and>
          TextDocumentIdentifier_is (field fs ''textDocument''))"
| "isTextDocumentPositionParams (JArr xs) = Inr False"
| "isTextDocumentPositionParams v = (if truthy v then Inl TypeError else Inr False)"

text \<open>\<^verbatim>\<open>toTextDocumentPositionParams\<close>: the argument itself, or a new object.\<close>

definition toTextDocumentPositionParams :: "jsval \<Rightarrow> error + jsval" where
  "toTextDocumentPositionParams arg =
     (case isTextDocumentPositionParams arg of
        Inl e \<Rightarrow> Inl e
      | Inr True \<Rightarrow> Inr arg
      | Inr False \<Rightarrow>
          (case getProp arg ''range'' of
             Inl e \<Rightarrow> Inl e
           | Inr rng \<Rightarrow>
               (case getProp rng ''start'' of
                  Inl e \<Rightarrow> Inl e
                | Inr position \<Rightarrow>
                    (case getProp arg ''uri'' of
                       Inl e \<Rightarrow> Inl e
                     | Inr uri \<Rightarrow>
                         Inr (JObj [(''position'', position),
                                    (''textDocument'', JObj [(''uri'', uri)])])))))"

text \<open>
  \<^verbatim>\<open>TypeHierarchyFeature.get\<close>. \<open>sendRequest f method params\<close> is the answer of the
  language client of feature \<open>f\<close>: the response, or the rejection of the request.
\<close>

definition get :: "(fid \<Rightarrow> string \<Rightarrow> jsval \<Rightarrow> error + jsval) \<Rightarrow> fid \<Rightarrow> jsval \<Rightarrow> error + jsval" where
  "get sendRequest f params =
     (case sendRequest f ''textDocument/typeHierarchy'' params of
        Inl e \<Rightarrow> Inl e
      | Inr item \<Rightarrow> Inr (if truthy item then item else JUndefined))"

text \<open>
  \<^verbatim>\<open>TypeHierarchyService.types\<close>. The two assignments write into the object that
  \<^verbatim>\<open>toTextDocumentPositionParams\<close> returned; when that is the argument itself, the
  caller's object changes. The first component is the caller's argument after the call,
  the second the outcome of the promise.
\<close>

definition types ::
  "(fid \<Rightarrow> string \<Rightarrow> jsval \<Rightarrow> error + jsval) \<Rightarrow> fid option \<Rightarrow> jsval \<Rightarrow> string
     \<Rightarrow> jsval \<times> (error + jsval)" where
  "types sendRequest feature arg direction =
     (case feature of
        None \<Rightarrow> (arg, Inr JUndefined)
      | Some f \<Rightarrow>
          (case toTextDocumentPositionParams arg of
             Inl e \<Rightarrow> (arg, Inl e)
           | Inr params \<Rightarrow>
               (let params' = setProp (setProp params ''direction'' (JStr direction))
                                ''resolve'' (JNum 1)
                in (if isTextDocumentPositionParams arg = Inr True then params' else arg,
                    get sendRequest f params'))))"

definition superTypes ::
  "(fid \<Rightarrow> string \<Rightarrow> jsval \<Rightarrow> error + jsval) \<Rightarrow> state \<Rightarrow> string \<Rightarrow> jsval
     \<Rightarrow> jsval \<times> (error + jsval)" where
  "superTypes sendRequest s lang arg =
     types sendRequest (map_of (features s) lang) arg ''parents''"

definition subTypes ::
  "(fid \<Rightarrow> string \<Rightarrow> jsval \<Rightarrow> error + jsval) \<Rightarrow> state \<Rightarrow> string \<Rightarrow> jsval
     \<Rightarrow> jsval \<times> (error + jsval)" where
  "subTypes sendRequest s lang arg =
     types sendRequest (map_of (features s) lang) arg ''children''"

section \<open>Properties of the object operations\<close>

lemma field_update: "field (AList.update k v fs) k' = (if k' = k then v else field fs k')"
  by (simp add: field_def update_conv')

lemma keys_update: "fst ` set (AList.update k v fs) = insert k (fst ` set fs)"
  using dom_update [of k v fs] by (simp add: dom_map_of_conv_image_fst)

section \<open>The direction helper\<close>

text \<open>
  C8. \<open>flip\<close> maps \<^verbatim>\<open>subtype\<close> to \<^verbatim>\<open>supertype\<close> and back, so flipping twice returns
  each of the two values; on every other input it throws the error of the \<^verbatim>\<open>default\<close>
  branch.
\<close>

theorem flip_involution:
  "flip ''subtype'' = Inr ''supertype'' \<and> flip ''supertype'' = Inr ''subtype'' \<and>
   (case flip ''subtype'' of Inl e \<Rightarrow> Inl e | Inr d \<Rightarrow> flip d) = Inr ''subtype'' \<and>
   (case flip ''supertype'' of Inl e \<Rightarrow> Inl e | Inr d \<Rightarrow> flip d) = Inr ''supertype'' \<and>
   (d \<noteq> ''subtype'' \<and> d \<noteq> ''supertype'' \<longrightarrow>
      flip d = Inl (UnexpectedTypeHierarchyType (''Unexpected type hierarchy type: '' @ d @ ''.'')))"
  by (simp add: flip_def)

text \<open>The error branch at the input \<^verbatim>\<open>both\<close>.\<close>

theorem flip_involution_witness:
  "flip ''both'' = Inl (UnexpectedTypeHierarchyType ''Unexpected type hierarchy type: both.'')"
  using flip_involution [of "''both''"] by simp

section \<open>Queries through the service\<close>

text \<open>
  C9. A query for a language without a mapped feature answers \<^verbatim>\<open>undefined\<close> and leaves
  the argument alone, whatever the argument is; \<open>get\<close> turns the response \<^verbatim>\<open>null\<close> into
  \<^verbatim>\<open>undefined\<close> and returns an item as the backend sent it.
\<close>

theorem no_result_is_undefined:
  "(map_of (features s) lang = None \<longrightarrow>
      superTypes sendRequest s lang arg = (arg, Inr JUndefined) \<and>
      subTypes sendRequest s lang arg = (arg, Inr JUndefined)) \<and>
   (sendRequest f ''textDocument/typeHierarchy'' params = Inr JNull \<longrightarrow>
      get sendRequest f params = Inr JUndefined) \<and>
   (sendRequest f ''textDocument/typeHierarchy'' params = Inr (JObj item) \<longrightarrow>
      get sendRequest f params = Inr (JObj item))"
  by (simp add: superTypes_def subTypes_def types_def get_def)

text \<open>The three cases at a service without features and at two backends.\<close>

theorem no_result_is_undefined_witness:
  "superTypes (\<lambda>f m p. Inr JNull) empty_state ''go'' JUndefined = (JUndefined, Inr JUndefined) \<and>
   subTypes (\<lambda>f m p. Inr JNull) empty_state ''go'' JUndefined = (JUndefined, Inr JUndefined) \<and>
   get (\<lambda>f m p. Inr JNull) 0 (JObj []) = Inr JUndefined \<and>
   get (\<lambda>f m p. Inr (JObj [(''name'', JStr ''A'')])) 0 (JObj []) = Inr (JObj [(''name'', JStr ''A'')])"
  using no_result_is_undefined [of empty_state "''go''" "\<lambda>f m p. Inr JNull" JUndefined 0 "JObj []"]
    no_result_is_undefined [of empty_state "''go''" "\<lambda>f m p. Inr (JObj [(''name'', JStr ''A'')])" JUndefined 0 "JObj []" "[(''name'', JStr ''A'')]"]
  by (simp add: empty_state_def)

text \<open>
  C7. An item or a location (an object that is not of the position-request shape) whose
  \<^verbatim>\<open>range\<close> starts at \<open>position\<close>, for instance at \<open>(line, col)\<close>, and whose
  \<^verbatim>\<open>uri\<close> is \<open>u\<close>, queried for a language with a mapped feature: \<open>superTypes\<close> and
  \<open>subTypes\<close> hand the feature's \<open>get\<close> the request with that position, that uri, the
  direction of the side asked for (\<^verbatim>\<open>parents\<close>, \<^verbatim>\<open>children\<close>) and \<^verbatim>\<open>resolve = 1\<close>.
\<close>

theorem item_or_location_request:
  assumes "map_of (features s) lang = Some f"
    and "isTextDocumentPositionParams (JObj fs) = Inr False"
    and "field fs ''range'' = JObj rs"
    and "field rs ''start'' = position"
    and "field fs ''uri'' = u"
  shows "superTypes sendRequest s lang (JObj fs) =
           (JObj fs,
            get sendRequest f
              (JObj [(''position'', position),
                     (''textDocument'', JObj [(''uri'', u)]),
                     (''direction'', JStr ''parents''),
                     (''resolve'', JNum 1)])) \<and>
         subTypes sendRequest s lang (JObj fs) =
           (JObj fs,
            get sendRequest f
              (JObj [(''position'', position),
                     (''textDocument'', JObj [(''uri'', u)]),
                     (''direction'', JStr ''children''),
                     (''resolve'', JNum 1)]))"
proof -
  have "toTextDocumentPositionParams (JObj fs) =
          Inr (JObj [(''position'', position), (''textDocument'', JObj [(''uri'', u)])])"
    using assms(2-5)
    by (simp add: toTextDocumentPositionParams_def del: isTextDocumentPositionParams.simps)
  then show ?thesis
    using assms(1,2)
    by (simp add: superTypes_def subTypes_def types_def del: isTextDocumentPositionParams.simps)
qed

text \<open>
  The location of the spec's example, line 3, column 5 of \<^verbatim>\<open>file:///a.ts\<close>, with a
  backend that echoes the request.
\<close>

theorem item_or_location_request_witness:
  "superTypes (\<lambda>f m p. Inr p) (empty_state\<lparr>features := [(''ts'', 0)]\<rparr>) ''ts''
     (JObj [(''uri'', JStr ''file:///a.ts''),
            (''range'', JObj [(''start'', JObj [(''line'', JNum 3), (''character'', JNum 5)]),
                              (''end'', JObj [(''line'', JNum 3), (''character'', JNum 9)])])]) =
   (JObj [(''uri'', JStr ''file:///a.ts''),
            (''range'', JObj [(''start'', JObj [(''line'', JNum 3), (''character'', JNum 5)]),
                              (''end'', JObj [(''line'', JNum 3), (''character'', JNum 9)])])],
    Inr (JObj [(''position'', JObj [(''line'', JNum 3), (''character'', JNum 5)]),
               (''textDocument'', JObj [(''uri'', JStr ''file:///a.ts'')]),
               (''direction'', JStr ''parents''),
               (''resolve'', JNum 1)])) \<and>
   subTypes (\<lambda>f m p. Inr p) (empty_state\<lparr>features := [(''ts'', 0)]\<rparr>) ''ts''
     (JObj [(''uri'', JStr ''file:///a.ts''),
            (''range'', JObj [(''start'', JObj [(''line'', JNum 3), (''character'', JNum 5)]),
                              (''end'', JObj [(''line'', JNum 3), (''character'', JNum 9)])])]) =
   (JObj [(''uri'', JStr ''file:///a.ts''),
            (''range'', JObj [(''start'', JObj [(''line'', JNum 3), (''character'', JNum 5)]),
                              (''end'', JObj [(''line'', JNum 3), (''character'', JNum 9)])])],
    Inr (JObj [(''position'', JObj [(''line'', JNum 3), (''character'', JNum 5)]),
               (''textDocument'', JObj [(''uri'', JStr ''file:///a.ts'')]),
               (''direction'', JStr ''children''),
               (''resolve'', JNum 1)]))"
proof -
  let ?s = "empty_state\<lparr>features := [(''ts'', 0)]\<rparr>"
  let ?rs = "[(''start'', JObj [(''line'', JNum 3), (''character'', JNum 5)]),
              (''end'', JObj [(''line'', JNum 3), (''character'', JNum 9)])]"
  let ?fs = "[(''uri'', JStr ''file:///a.ts''), (''range'', JObj ?rs)]"
  have h1: "map_of (features ?s) ''ts'' = Some 0" by simp
  have h2: "isTextDocumentPositionParams (JObj ?fs) = Inr False" by simp
  have h3: "field ?fs ''range'' = JObj ?rs" by (simp add: field_def)
  have h4: "field ?rs ''start'' = JObj [(''line'', JNum 3), (''character'', JNum 5)]"
    by (simp add: field_def)
  have h5: "field ?fs ''uri'' = JStr ''file:///a.ts''" by (simp add: field_def)
  show ?thesis
    using item_or_location_request [OF h1 h2 h3 h4 h5, of "\<lambda>f m p. Inr p"]
    by (simp add: get_def)
qed

text \<open>
  C10. For an argument that is not of the position-request shape, the request is built
  from \<^verbatim>\<open>range.start\<close> and \<^verbatim>\<open>uri\<close> alone: it has the four properties \<^verbatim>\<open>position\<close>,
  \<^verbatim>\<open>textDocument\<close> (with \<^verbatim>\<open>uri\<close> only), \<^verbatim>\<open>direction\<close> and \<^verbatim>\<open>resolve\<close>, it is sent with
  the method \<^verbatim>\<open>textDocument/typeHierarchy\<close>, and writing any other property of the
  argument (\<^verbatim>\<open>name\<close>, \<^verbatim>\<open>kind\<close>, \<^verbatim>\<open>selectionRange\<close>, \<^verbatim>\<open>data\<close>, ...) does not change the
  outcome.
\<close>

theorem derived_request_only_position_and_uri:
  assumes "isTextDocumentPositionParams (JObj fs) = Inr False"
    and "getProp (field fs ''range'') ''start'' = Inr position"
  shows "types sendRequest (Some f) (JObj fs) direction =
           (JObj fs,
            case sendRequest f ''textDocument/typeHierarchy''
                   (JObj [(''position'', position),
                          (''textDocument'', JObj [(''uri'', field fs ''uri'')]),
                          (''direction'', JStr direction),
                          (''resolve'', JNum 1)]) of
              Inl e \<Rightarrow> Inl e
            | Inr item \<Rightarrow> Inr (if truthy item then item else JUndefined)) \<and>
         (\<forall>k v. k \<notin> {''uri'', ''range'', ''position'', ''textDocument''} \<longrightarrow>
            snd (types sendRequest (Some f) (JObj (AList.update k v fs)) direction) =
            snd (types sendRequest (Some f) (JObj fs) direction))"
proof -
  have conv: "toTextDocumentPositionParams (JObj fs') =
                Inr (JObj [(''position'', position),
                          (''textDocument'', JObj [(''uri'', field fs ''uri'')])])"
    if "isTextDocumentPositionParams (JObj fs') = Inr False"
      and "field fs' ''range'' = field fs ''range''"
      and "field fs' ''uri'' = field fs ''uri''" for fs'
    using that assms(2)
    by (simp add: toTextDocumentPositionParams_def del: isTextDocumentPositionParams.simps)
  have run: "types sendRequest (Some f) (JObj fs') direction =
           (JObj fs',
            case sendRequest f ''textDocument/typeHierarchy''
                   (JObj [(''position'', position),
                          (''textDocument'', JObj [(''uri'', field fs ''uri'')]),
                          (''direction'', JStr direction),
                          (''resolve'', JNum 1)]) of
              Inl e \<Rightarrow> Inl e
            | Inr item \<Rightarrow> Inr (if truthy item then item else JUndefined))"
    if "isTextDocumentPositionParams (JObj fs') = Inr False"
      and "field fs' ''range'' = field fs ''range''"
      and "field fs' ''uri'' = field fs ''uri''" for fs'
    using conv [OF that] that(1)
    by (simp add: types_def get_def del: isTextDocumentPositionParams.simps)
  have same: "isTextDocumentPositionParams (JObj (AList.update k v fs)) = Inr False \<and>
              field (AList.update k v fs) ''range'' = field fs ''range'' \<and>
              field (AList.update k v fs) ''uri'' = field fs ''uri''"
    if "k \<notin> {''uri'', ''range'', ''position'', ''textDocument''}" for k v
    using that assms(1) by (auto simp add: field_update keys_update)
  show ?thesis
    using run [of fs] assms(1) same run by (simp del: isTextDocumentPositionParams.simps)
qed

text \<open>An item with a name, a kind, a selection range and a data token.\<close>

theorem derived_request_only_position_and_uri_witness:
  "types (\<lambda>f m p. Inr (JObj [(''method'', JStr m), (''params'', p)])) (Some 0)
     (JObj [(''name'', JStr ''A''), (''kind'', JNum 5), (''uri'', JStr ''file:///a.ts''),
            (''range'', JObj [(''start'', JObj [(''line'', JNum 3), (''character'', JNum 5)]),
                              (''end'', JObj [(''line'', JNum 9), (''character'', JNum 1)])]),
            (''selectionRange'', JObj [(''start'', JObj [(''line'', JNum 3), (''character'', JNum 11)]),
                                       (''end'', JObj [(''line'', JNum 3), (''character'', JNum 12)])]),
            (''data'', JStr ''token'')])
     ''children'' =
   (JObj [(''name'', JStr ''A''), (''kind'', JNum 5), (''uri'', JStr ''file:///a.ts''),
            (''range'', JObj [(''start'', JObj [(''line'', JNum 3), (''character'', JNum 5)]),
                              (''end'', JObj [(''line'', JNum 9), (''character'', JNum 1)])]),
            (''selectionRange'', JObj [(''start'', JObj [(''line'', JNum 3), (''character'', JNum 11)]),
                                       (''end'', JObj [(''line'', JNum 3), (''character'', JNum 12)])]),
            (''data'', JStr ''token'')],
    Inr (JObj [(''method'', JStr ''textDocument/typeHierarchy''),
               (''params'', JObj [(''position'', JObj [(''line'', JNum 3), (''character'', JNum 5)]),
                                  (''textDocument'', JObj [(''uri'', JStr ''file:///a.ts'')]),
                                  (''direction'', JStr ''children''),
                                  (''resolve'', JNum 1)])]))"
proof -
  let ?fs = "[(''name'', JStr ''A''), (''kind'', JNum 5), (''uri'', JStr ''file:///a.ts''),
            (''range'', JObj [(''start'', JObj [(''line'', JNum 3), (''character'', JNum 5)]),
                              (''end'', JObj [(''line'', JNum 9), (''character'', JNum 1)])]),
            (''selectionRange'', JObj [(''start'', JObj [(''line'', JNum 3), (''character'', JNum 11)]),
                                       (''end'', JObj [(''line'', JNum 3), (''character'', JNum 12)])]),
            (''data'', JStr ''token'')]"
  have h1: "isTextDocumentPositionParams (JObj ?fs) = Inr False" by simp
  have h2: "getProp (field ?fs ''range'') ''start'' =
              Inr (JObj [(''line'', JNum 3), (''character'', JNum 5)])"
    by (simp add: field_def)
  show ?thesis
    using derived_request_only_position_and_uri [OF h1 h2,
        of "\<lambda>f m p. Inr (JObj [(''method'', JStr m), (''params'', p)])" 0 "''children''"]
    by (simp add: field_def)
qed

text \<open>
  C3, as stated, fails: a position request that asks for five levels in both directions
  reaches the backend with \<^verbatim>\<open>resolve = 1\<close> and \<^verbatim>\<open>direction = 'parents'\<close>, and the caller's
  own object is changed as well.
\<close>

theorem position_params_rewritten_counterexample:
  "superTypes (\<lambda>f m p. Inr p) (empty_state\<lparr>features := [(''ts'', 0)]\<rparr>) ''ts''
     (JObj [(''textDocument'', JObj [(''uri'', JStr ''file:///a.ts'')]),
            (''position'', JObj [(''line'', JNum 3), (''character'', JNum 5)]),
            (''resolve'', JNum 5),
            (''direction'', JStr ''both'')]) =
   (JObj [(''textDocument'', JObj [(''uri'', JStr ''file:///a.ts'')]),
          (''position'', JObj [(''line'', JNum 3), (''character'', JNum 5)]),
          (''resolve'', JNum 1),
          (''direction'', JStr ''parents'')],
    Inr (JObj [(''textDocument'', JObj [(''uri'', JStr ''file:///a.ts'')]),
               (''position'', JObj [(''line'', JNum 3), (''character'', JNum 5)]),
               (''resolve'', JNum 1),
               (''direction'', JStr ''parents'')]))"
  by (simp add: superTypes_def types_def toTextDocumentPositionParams_def get_def field_def
      Let_def)

text \<open>
  C3, amended. An argument of the position-request shape is returned by
  \<open>toTextDocumentPositionParams\<close> as it is; \<open>types\<close> then writes \<^verbatim>\<open>direction\<close> and
  \<^verbatim>\<open>resolve = 1\<close> into that same object and sends it. Every other property keeps its
  value.
\<close>

theorem position_params_keep_other_fields:
  assumes "isTextDocumentPositionParams (JObj fs) = Inr True"
  shows "toTextDocumentPositionParams (JObj fs) = Inr (JObj fs) \<and>
         types sendRequest (Some f) (JObj fs) direction =
           (JObj (AList.update ''resolve'' (JNum 1)
                    (AList.update ''direction'' (JStr direction) fs)),
            get sendRequest f
              (JObj (AList.update ''resolve'' (JNum 1)
                       (AList.update ''direction'' (JStr direction) fs)))) \<and>
         (\<forall>k. k \<noteq> ''direction'' \<and> k \<noteq> ''resolve'' \<longrightarrow>
            field (AList.update ''resolve'' (JNum 1)
                     (AList.update ''direction'' (JStr direction) fs)) k = field fs k)"
proof -
  have conv: "toTextDocumentPositionParams (JObj fs) = Inr (JObj fs)"
    using assms by (simp add: toTextDocumentPositionParams_def del: isTextDocumentPositionParams.simps)
  then show ?thesis
    using assms
    by (simp add: types_def Let_def field_update del: isTextDocumentPositionParams.simps)
qed

text \<open>A position request that carries one more property.\<close>

theorem position_params_keep_other_fields_witness:
  "types (\<lambda>f m p. Inr p) (Some 0)
     (JObj [(''textDocument'', JObj [(''uri'', JStr ''file:///a.ts'')]),
            (''position'', JObj [(''line'', JNum 3), (''character'', JNum 5)]),
            (''extra'', JBool True)])
     ''children'' =
   (JObj [(''textDocument'', JObj [(''uri'', JStr ''file:///a.ts'')]),
          (''position'', JObj [(''line'', JNum 3), (''character'', JNum 5)]),
          (''extra'', JBool True),
          (''direction'', JStr ''children''),
          (''resolve'', JNum 1)],
    Inr (JObj [(''textDocument'', JObj [(''uri'', JStr ''file:///a.ts'')]),
          (''position'', JObj [(''line'', JNum 3), (''character'', JNum 5)]),
          (''extra'', JBool True),
          (''direction'', JStr ''children''),
          (''resolve'', JNum 1)]))"
proof -
  let ?fs = "[(''textDocument'', JObj [(''uri'', JStr ''file:///a.ts'')]),
              (''position'', JObj [(''line'', JNum 3), (''character'', JNum 5)]),
              (''extra'', JBool True)]"
  have h: "isTextDocumentPositionParams (JObj ?fs) = Inr True" by (simp add: field_def)
  show ?thesis
    using position_params_keep_other_fields [OF h, of "\<lambda>f m p. Inr p" 0 "''children''"]
    by (simp add: get_def)
qed

section \<open>Event delivery\<close>

lemma andThen_Done [simp]: "andThen (Done s) k = k s"
  by (simp add: andThen_def)

lemma andThen_Exhausted [simp]: "andThen (Exhausted s) k = Exhausted s"
  by (simp add: andThen_def)

text \<open>Subscribers that only take note of the event return at once.\<close>

lemma fire_observers:
  "\<forall>h\<in>set obs. is_Observer h \<Longrightarrow>
   fire (\<lambda>h s'. invoke n h s') f k (obs @ hs) s =
   fire (\<lambda>h s'. invoke n h s') f k hs (s\<lparr>trace := trace s @ map (Delivered f k) obs\<rparr>)"
proof (induction obs arbitrary: s)
  case Nil
  then show ?case by simp
next
  case (Cons h obs)
  then obtain i where "h = Observer i" by (cases h) auto
  with Cons show ?case by (simp add: log_def)
qed

lemma fire_only_observers:
  "\<forall>h\<in>set obs. is_Observer h \<Longrightarrow>
   fire (\<lambda>h s'. invoke n h s') f k obs s =
   Done (s\<lparr>trace := trace s @ map (Delivered f k) obs\<rparr>)"
  using fire_observers [of obs n f k "[]" s] by simp

lemma initialize_only_observers:
  assumes "heap s f = Some F"
    and "\<forall>h\<in>set (onInitializedEmitter F). is_Observer h"
    and "truthy documentSelector"
    and "supported typeHierarchy"
  shows "initialize n f typeHierarchy documentSelector s =
           Done (s\<lparr>heap := (heap s)(f \<mapsto>
                     F\<lparr>providers := AList.update (uuids s)
                          (registerOptions documentSelector typeHierarchy) (providers F)\<rparr>),
                   uuids := Suc (uuids s),
                   trace := trace s @ map (Delivered f Initialized) (onInitializedEmitter F) @
                     [Registered f (uuids s) (registerOptions documentSelector typeHierarchy)]\<rparr>)"
proof -
  have "callbacks Initialized f s = onInitializedEmitter F"
    using assms(1) by (simp add: callbacks_def)
  then show ?thesis
    using assms fire_only_observers [of "onInitializedEmitter F" n f Initialized s]
    by (simp add: initialize_def TextDocumentFeature_register_def log_def Let_def)
qed

lemma dispose_only_observers:
  assumes "heap s f = Some F"
    and "\<forall>h\<in>set (onDisposedEmitter F). is_Observer h"
  shows "dispose (Suc n) f s =
           Done (TextDocumentFeature_dispose f
                   (s\<lparr>trace := trace s @ map (Delivered f Disposed) (onDisposedEmitter F)\<rparr>))"
proof -
  have "callbacks Disposed f s = onDisposedEmitter F"
    using assms(1) by (simp add: callbacks_def)
  then show ?thesis
    using fire_only_observers [OF assms(2), of n f Disposed s] by simp
qed

text \<open>
  A feature mapped for its language carries the service's Disposed handler for that
  language. Its \<open>dispose\<close> fires Disposed; the handler finds the feature in the map and
  calls its \<open>dispose\<close> again, before the entry is deleted. The calls nest until the
  call stack is used up; the innermost handler throws, the emitter catches the error, and
  every \<open>dispose\<close> call on the way back returns. With room for one call only, the
  feature's emitters are closed but its entry stays.
\<close>

lemma concat_replicate_append_same:
  "concat (replicate n xs) @ xs = xs @ concat (replicate n xs)"
  by (induction n) simp_all

lemma TextDocumentFeature_dispose_without_providers:
  "heap s f = Some F \<Longrightarrow> providers F = [] \<Longrightarrow> TextDocumentFeature_dispose f s = s"
  by (simp add: TextDocumentFeature_dispose_def)

lemma dispose_of_mapped_feature_once:
  assumes "heap s f = Some F"
    and "onDisposedEmitter F = ServiceOnDisposed L f c # rest"
    and "\<forall>h\<in>set rest. is_Observer h"
    and "providers F \<noteq> []"
    and "map_of (features s) L = Some f"
  shows "dispose (Suc 0) f s =
           Done (s\<lparr>heap := (heap s)(f \<mapsto>
                     F\<lparr>onInitializedEmitter := [], onDisposedEmitter := [], providers := []\<rparr>),
                   trace := trace s @
                     Delivered f Disposed (ServiceOnDisposed L f c) #
                     map (Delivered f Disposed) rest\<rparr>)"
proof -
  let ?H = "ServiceOnDisposed L f c"
  let ?s1 = "log (Delivered f Disposed ?H) s"
  have cb: "callbacks Disposed f s = ?H # rest"
    using assms(1,2) by (simp add: callbacks_def)
  have "final (invoke 0 ?H ?s1) = ?s1"
    using assms(5) by (simp add: log_def)
  then have "fire (\<lambda>h s'. invoke 0 h s') f Disposed (?H # rest) s =
             fire (\<lambda>h s'. invoke 0 h s') f Disposed rest ?s1"
    by simp
  also have "\<dots> = Done (?s1\<lparr>trace := trace ?s1 @ map (Delivered f Disposed) rest\<rparr>)"
    using assms(3) by (rule fire_only_observers)
  finally show ?thesis
    using cb assms(1,4) by (simp add: log_def TextDocumentFeature_dispose_def)
qed

text \<open>
  With room for two or more nested calls, the handler of the second innermost call
  deletes the entry; the feature's Disposed event has been delivered to the service once
  per nested call, and to the other subscribers once per call on the way back.
\<close>

lemma dispose_of_mapped_feature:
  assumes "heap s f = Some F"
    and "onDisposedEmitter F = ServiceOnDisposed L f c # rest"
    and "\<forall>h\<in>set rest. is_Observer h"
    and "providers F \<noteq> []"
    and "map_of (features s) L = Some f"
  shows "dispose (Suc (Suc n)) f s =
           Done (s\<lparr>heap := (heap s)(f \<mapsto>
                     F\<lparr>onInitializedEmitter := [], onDisposedEmitter := [], providers := []\<rparr>),
                   features := AList.delete L (features s),
                   trace := trace s @
                     replicate (Suc (Suc n)) (Delivered f Disposed (ServiceOnDisposed L f c)) @
                     map (Delivered f Disposed) rest @
                     MapDelete L #
                     concat (replicate (Suc n) (map (Delivered f Disposed) rest))\<rparr>)"
  using assms(1,5)
proof (induction n arbitrary: s)
  case 0
  let ?H = "ServiceOnDisposed L f c"
  let ?C = "F\<lparr>onInitializedEmitter := [], onDisposedEmitter := [], providers := []\<rparr>"
  let ?s1 = "s\<lparr>trace := trace s @ [Delivered f Disposed ?H]\<rparr>"
  have cb: "callbacks Disposed f s = ?H # rest"
    using 0 assms(2) by (simp add: callbacks_def)
  have "heap ?s1 f = Some F" "map_of (features ?s1) L = Some f"
    using 0 by (simp_all add: log_def)
  then have inner: "dispose (Suc 0) f ?s1 =
      Done (?s1\<lparr>heap := (heap ?s1)(f \<mapsto> ?C),
                trace := trace ?s1 @ Delivered f Disposed ?H # map (Delivered f Disposed) rest\<rparr>)"
    using assms(2-4) by (intro dispose_of_mapped_feature_once) simp_all
  let ?s2 = "s\<lparr>heap := (heap s)(f \<mapsto> ?C),
              features := AList.delete L (features s),
              trace := trace s @ [Delivered f Disposed ?H, Delivered f Disposed ?H] @
                map (Delivered f Disposed) rest @ [MapDelete L]\<rparr>"
  have "final (invoke (Suc 0) ?H ?s1) = ?s2"
    using \<open>map_of (features ?s1) L = Some f\<close> 0
    by (cases F)
      (simp add: inner log_def features_delete_def toDisposeOnFeatureDispose_dispose_def
        del: dispose.simps)
  then have "fire (\<lambda>h s'. invoke (Suc 0) h s') f Disposed (?H # rest) s =
             fire (\<lambda>h s'. invoke (Suc 0) h s') f Disposed rest ?s2"
    by (simp add: log_def del: invoke.simps)
  also have "\<dots> = Done (?s2\<lparr>trace := trace ?s2 @ map (Delivered f Disposed) rest\<rparr>)"
    using assms(3) by (rule fire_only_observers)
  finally show ?case
    using cb
    by (simp add: TextDocumentFeature_dispose_without_providers [where F = ?C]
        concat_replicate_append_same)
      (simp_all add: fun_upd_def)
next
  case (Suc n)
  let ?H = "ServiceOnDisposed L f c"
  let ?C = "F\<lparr>onInitializedEmitter := [], onDisposedEmitter := [], providers := []\<rparr>"
  let ?s1 = "s\<lparr>trace := trace s @ [Delivered f Disposed ?H]\<rparr>"
  have cb: "callbacks Disposed f s = ?H # rest"
    using Suc.prems assms(2) by (simp add: callbacks_def)
  have "heap ?s1 f = Some F" "map_of (features ?s1) L = Some f"
    using Suc.prems by (simp_all add: log_def)
  then have inner: "dispose (Suc (Suc n)) f ?s1 =
      Done (?s1\<lparr>heap := (heap ?s1)(f \<mapsto> ?C),
                features := AList.delete L (features ?s1),
                trace := trace ?s1 @
                  replicate (Suc (Suc n)) (Delivered f Disposed ?H) @
                  map (Delivered f Disposed) rest @
                  MapDelete L #
                  concat (replicate (Suc n) (map (Delivered f Disposed) rest))\<rparr>)"
    by (rule Suc.IH)
  let ?s2 = "s\<lparr>heap := (heap s)(f \<mapsto> ?C),
              features := AList.delete L (features s),
              trace := trace s @
                  replicate (Suc (Suc (Suc n))) (Delivered f Disposed ?H) @
                  map (Delivered f Disposed) rest @
                  MapDelete L #
                  concat (replicate (Suc n) (map (Delivered f Disposed) rest))\<rparr>"
  have "final (invoke (Suc (Suc n)) ?H ?s1) = ?s2"
    using \<open>map_of (features ?s1) L = Some f\<close>
    by (cases F)
      (simp add: inner log_def features_delete_def toDisposeOnFeatureDispose_dispose_def
        delete_conv replicate_append_same del: dispose.simps)
  then have "fire (\<lambda>h s'. invoke (Suc (Suc n)) h s') f Disposed (?H # rest) s =
             fire (\<lambda>h s'. invoke (Suc (Suc n)) h s') f Disposed rest ?s2"
    by (simp add: log_def del: invoke.simps)
  also have "\<dots> = Done (?s2\<lparr>trace := trace ?s2 @ map (Delivered f Disposed) rest\<rparr>)"
    using assms(3) by (rule fire_only_observers)
  finally show ?case
    using cb
    by (simp add: TextDocumentFeature_dispose_without_providers [where F = ?C]
        concat_replicate_append_same)
      (simp_all add: fun_upd_def)
qed

text \<open>
  A feature of the service whose language has no mapped feature: the service's handler
  only releases its two subscriptions.
\<close>

lemma dispose_of_unmapped_service_feature:
  assumes "heap s f = Some F"
    and "onDisposedEmitter F = ServiceOnDisposed L f c # rest"
    and "\<forall>h\<in>set rest. is_Observer h"
    and "providers F = []"
    and "map_of (features s) L = None"
  shows "dispose (Suc n) f s =
           Done (s\<lparr>heap := (heap s)(f \<mapsto>
                     F\<lparr>onInitializedEmitter :=
                         remove1 (ServiceOnInitialized L f c) (onInitializedEmitter F),
                       onDisposedEmitter := rest\<rparr>),
                   trace := trace s @
                     Delivered f Disposed (ServiceOnDisposed L f c) #
                     map (Delivered f Disposed) rest\<rparr>)"
proof -
  let ?H = "ServiceOnDisposed L f c"
  let ?F' = "F\<lparr>onInitializedEmitter :=
                 remove1 (ServiceOnInitialized L f c) (onInitializedEmitter F),
               onDisposedEmitter := rest\<rparr>"
  let ?s2 = "s\<lparr>trace := trace s @ [Delivered f Disposed ?H],
              heap := (heap s)(f \<mapsto> ?F')\<rparr>"
  have cb: "callbacks Disposed f s = ?H # rest"
    using assms(1,2) by (simp add: callbacks_def)
  have "fire (\<lambda>h s'. invoke n h s') f Disposed (?H # rest) s =
        fire (\<lambda>h s'. invoke n h s') f Disposed rest ?s2"
    using assms(1,2,5) by (simp add: log_def toDisposeOnFeatureDispose_dispose_def)
  also have "\<dots> = Done (?s2\<lparr>trace := trace ?s2 @ map (Delivered f Disposed) rest\<rparr>)"
    using assms(3) by (rule fire_only_observers)
  finally have fired: "fire (\<lambda>h s'. invoke n h s') f Disposed (?H # rest) s =
        Done (?s2\<lparr>trace := trace ?s2 @ map (Delivered f Disposed) rest\<rparr>)" .
  have "TextDocumentFeature_dispose f
          (?s2\<lparr>trace := trace ?s2 @ map (Delivered f Disposed) rest\<rparr>) =
        ?s2\<lparr>trace := trace ?s2 @ map (Delivered f Disposed) rest\<rparr>"
    using assms(4) by (intro TextDocumentFeature_dispose_without_providers [where F = ?F']) simp_all
  then show ?thesis
    by (simp add: cb fired del: fire.simps)
qed

lemma dispose_without_subscribers:
  assumes "heap s f = Some F"
    and "onDisposedEmitter F = []"
    and "providers F = []"
  shows "dispose (Suc n) f s = Done s"
  using assms by (simp add: callbacks_def TextDocumentFeature_dispose_def)

section \<open>The service registry\<close>

text \<open>
  C1. A feature \<open>b\<close>, registered with the service, negotiates successfully while
  another feature \<open>a\<close> is mapped for the same language. The handler of \<open>b\<close>'s
  Initialized event disposes \<open>a\<close> first: \<open>a\<close>'s Disposed event is delivered to the
  service and to \<open>a\<close>'s other subscribers, \<open>a\<close>'s entry is deleted and its emitters
  are closed. Only then \<open>b\<close> is set as the feature of the language, and after that
  \<open>b\<close> is registered. The map holds one feature per language at every moment, and
  between the deletion and the installation none. This holds whenever the call stack has
  room for two or more nested \<open>dispose\<close> calls.
\<close>

theorem old_feature_disposed_before_new_installed:
  assumes "heap s a = Some A"
    and "onDisposedEmitter A = ServiceOnDisposed L a c # rest"
    and "\<forall>h\<in>set rest. is_Observer h"
    and "providers A \<noteq> []"
    and "map_of (features s) L = Some a"
    and "heap s b = Some B"
    and "onInitializedEmitter B = ServiceOnInitialized L b c' # obs"
    and "\<forall>h\<in>set obs. is_Observer h"
    and "a \<noteq> b"
    and "truthy documentSelector"
    and "supported typeHierarchy"
  shows "initialize (Suc (Suc n)) b typeHierarchy documentSelector s =
           Done (s\<lparr>heap := (heap s)
                     (a \<mapsto> A\<lparr>onInitializedEmitter := [], onDisposedEmitter := [],
                              providers := []\<rparr>,
                      b \<mapsto> B\<lparr>providers := AList.update (uuids s)
                              (registerOptions documentSelector typeHierarchy)
                              (providers B)\<rparr>),
                   features := AList.update L b (AList.delete L (features s)),
                   uuids := Suc (uuids s),
                   trace := trace s @
                     Delivered b Initialized (ServiceOnInitialized L b c') #
                     replicate (Suc (Suc n)) (Delivered a Disposed (ServiceOnDisposed L a c)) @
                     map (Delivered a Disposed) rest @
                     MapDelete L #
                     concat (replicate (Suc n) (map (Delivered a Disposed) rest)) @
                     MapSet L b #
                     map (Delivered b Initialized) obs @
                     [Registered b (uuids s)
                        (registerOptions documentSelector typeHierarchy)]\<rparr>)"
proof -
  let ?H = "ServiceOnInitialized L b c'"
  let ?C = "A\<lparr>onInitializedEmitter := [], onDisposedEmitter := [], providers := []\<rparr>"
  let ?s1 = "s\<lparr>trace := trace s @ [Delivered b Initialized ?H]\<rparr>"
  let ?T = "replicate (Suc (Suc n)) (Delivered a Disposed (ServiceOnDisposed L a c)) @
            map (Delivered a Disposed) rest @
            MapDelete L #
            concat (replicate (Suc n) (map (Delivered a Disposed) rest))"
  have cb: "callbacks Initialized b s = ?H # obs"
    using assms(6,7) by (simp add: callbacks_def)
  have "heap ?s1 a = Some A" "map_of (features ?s1) L = Some a"
    using assms(1,5) by simp_all
  then have inner: "dispose (Suc (Suc n)) a ?s1 =
      Done (?s1\<lparr>heap := (heap ?s1)(a \<mapsto> ?C),
                features := AList.delete L (features ?s1),
                trace := trace ?s1 @ ?T\<rparr>)"
    using assms(2-4) by (intro dispose_of_mapped_feature) simp_all
  let ?s2 = "s\<lparr>heap := (heap s)(a \<mapsto> ?C),
              features := AList.update L b (AList.delete L (features s)),
              trace := trace s @ Delivered b Initialized ?H # ?T @ [MapSet L b]\<rparr>"
  have "final (invoke (Suc (Suc n)) ?H ?s1) = ?s2"
    using \<open>map_of (features ?s1) L = Some a\<close>
    by (simp add: inner log_def features_set_def del: dispose.simps replicate.simps)
  then have "fire (\<lambda>h s'. invoke (Suc (Suc n)) h s') b Initialized (?H # obs) s =
             fire (\<lambda>h s'. invoke (Suc (Suc n)) h s') b Initialized obs ?s2"
    by (simp add: log_def del: invoke.simps replicate.simps)
  also have "\<dots> = Done (?s2\<lparr>trace := trace ?s2 @ map (Delivered b Initialized) obs\<rparr>)"
    using assms(8) by (rule fire_only_observers)
  finally have fired: "fire (\<lambda>h s'. invoke (Suc (Suc n)) h s') b Initialized (?H # obs) s =
             Done (?s2\<lparr>trace := trace ?s2 @ map (Delivered b Initialized) obs\<rparr>)" .
  have "heap ?s2 b = Some B"
    using assms(6,9) by simp
  then show ?thesis
    using assms(9,10,11)
    by (simp add: initialize_def cb fired TextDocumentFeature_register_def log_def Let_def
        del: fire.simps replicate.simps)
qed

text \<open>
  Two language clients for \<^verbatim>\<open>java\<close>: the first negotiated and has one more subscriber
  to its Disposed event, the second negotiates now.
\<close>

theorem old_feature_disposed_before_new_installed_witness:
  "initialize 2 1 (Flag True) (JArr [JStr ''java''])
     (createNewFeature 1 ''java''
        (final (initialize 0 0 (Flag True) (JArr [JStr ''java''])
                 (subscribe Disposed 0 (Observer 7)
                    (createNewFeature 0 ''java'' empty_state))))) =
   Done
     \<lparr>heap = (\<lambda>f. None)
        (0 \<mapsto> \<lparr>languageId = ''java'',
                onInitializedEmitter = [],
                onDisposedEmitter = [],
                providers = []\<rparr>,
         1 \<mapsto> \<lparr>languageId = ''java'',
                onInitializedEmitter = [ServiceOnInitialized ''java'' 1 1],
                onDisposedEmitter = [ServiceOnDisposed ''java'' 1 1],
                providers = [(1, JObj [(''documentSelector'', JArr [JStr ''java''])])]\<rparr>),
      features = [(''java'', 1)],
      collections = 2,
      uuids = 2,
      trace = [Delivered 0 Initialized (ServiceOnInitialized ''java'' 0 0),
               MapSet ''java'' 0,
               Registered 0 0 (JObj [(''documentSelector'', JArr [JStr ''java''])]),
               Delivered 1 Initialized (ServiceOnInitialized ''java'' 1 1),
               Delivered 0 Disposed (ServiceOnDisposed ''java'' 0 0),
               Delivered 0 Disposed (ServiceOnDisposed ''java'' 0 0),
               Delivered 0 Disposed (Observer 7),
               MapDelete ''java'',
               Delivered 0 Disposed (Observer 7),
               MapSet ''java'' 1,
               Registered 1 1 (JObj [(''documentSelector'', JArr [JStr ''java''])])]\<rparr>"
proof -
  let ?s = "createNewFeature 1 ''java''
        (final (initialize 0 0 (Flag True) (JArr [JStr ''java''])
                 (subscribe Disposed 0 (Observer 7)
                    (createNewFeature 0 ''java'' empty_state))))"
  let ?A = "\<lparr>languageId = ''java'',
                onInitializedEmitter = [ServiceOnInitialized ''java'' 0 0],
                onDisposedEmitter = [ServiceOnDisposed ''java'' 0 0, Observer 7],
                providers = [(0, JObj [(''documentSelector'', JArr [JStr ''java''])])]\<rparr>"
  let ?B = "\<lparr>languageId = ''java'',
                onInitializedEmitter = [ServiceOnInitialized ''java'' 1 1],
                onDisposedEmitter = [ServiceOnDisposed ''java'' 1 1],
                providers = []\<rparr>"
  have s: "?s = \<lparr>heap = (\<lambda>f. None)(0 \<mapsto> ?A, 1 \<mapsto> ?B),
      features = [(''java'', 0)],
      collections = 2,
      uuids = 1,
      trace = [Delivered 0 Initialized (ServiceOnInitialized ''java'' 0 0),
               MapSet ''java'' 0,
               Registered 0 0 (JObj [(''documentSelector'', JArr [JStr ''java''])])]\<rparr>"
    by (simp add: createNewFeature_def new_TypeHierarchyFeature_def register_def subscribe_def
        initialize_def callbacks_def empty_state_def log_def features_set_def
        TextDocumentFeature_register_def Let_def)
  have h1: "heap ?s 0 = Some ?A" unfolding s by simp
  have h2: "onDisposedEmitter ?A = ServiceOnDisposed ''java'' 0 0 # [Observer 7]" by simp
  have h3: "\<forall>h\<in>set [Observer 7]. is_Observer h" by simp
  have h4: "providers ?A \<noteq> []" by simp
  have h5: "map_of (features ?s) ''java'' = Some 0" unfolding s by simp
  have h6: "heap ?s 1 = Some ?B" unfolding s by simp
  have h7: "onInitializedEmitter ?B = ServiceOnInitialized ''java'' 1 1 # []" by simp
  have h8: "\<forall>h\<in>set []. is_Observer h" by simp
  have h9: "(0::nat) \<noteq> 1" by simp
  have h10: "truthy (JArr [JStr ''java''])" by simp
  have h11: "supported (Flag True)" by simp
  have two: "(2::nat) = Suc (Suc 0)" by simp
  show ?thesis
    using old_feature_disposed_before_new_installed
      [OF h1 h2 h3 h4 h5 h6 h7 h8 h9 h10 h11, of 0]
    unfolding s two by (simp add: fun_upd_twist del: initialize_def)
qed

text \<open>
  C2. Feature \<open>g\<close> is mapped for a language; another feature \<open>f\<close> of the same language,
  registered with the service but never negotiated and never mapped, is disposed. The
  handler of \<open>f\<close>'s Disposed event does not test that the mapped feature is \<open>f\<close>: it
  disposes \<open>g\<close>. After the call \<open>g\<close>'s Disposed event has been delivered, \<open>g\<close>'s
  emitters are closed and the language has no mapped feature any more.
\<close>

theorem disposed_event_of_unmapped_feature_evicts_mapped_one:
  assumes "heap s g = Some G"
    and "onDisposedEmitter G = ServiceOnDisposed L g c # rest"
    and "\<forall>h\<in>set rest. is_Observer h"
    and "providers G \<noteq> []"
    and "map_of (features s) L = Some g"
    and "heap s f = Some F"
    and "onDisposedEmitter F = ServiceOnDisposed L f c' # rest'"
    and "\<forall>h\<in>set rest'. is_Observer h"
    and "providers F = []"
    and "f \<noteq> g"
  shows "dispose (Suc (Suc n)) f s =
           Done (s\<lparr>heap := (heap s)
                     (g \<mapsto> G\<lparr>onInitializedEmitter := [], onDisposedEmitter := [],
                              providers := []\<rparr>,
                      f \<mapsto> F\<lparr>onInitializedEmitter :=
                                remove1 (ServiceOnInitialized L f c') (onInitializedEmitter F),
                              onDisposedEmitter := rest'\<rparr>),
                   features := AList.delete L (features s),
                   trace := trace s @
                     Delivered f Disposed (ServiceOnDisposed L f c') #
                     replicate (Suc n) (Delivered g Disposed (ServiceOnDisposed L g c)) @
                     map (Delivered g Disposed) rest @
                     MapDelete L #
                     concat (replicate n (map (Delivered g Disposed) rest)) @
                     map (Delivered f Disposed) rest'\<rparr>)"
proof -
  let ?H = "ServiceOnDisposed L f c'"
  let ?C = "G\<lparr>onInitializedEmitter := [], onDisposedEmitter := [], providers := []\<rparr>"
  let ?F' = "F\<lparr>onInitializedEmitter :=
                 remove1 (ServiceOnInitialized L f c') (onInitializedEmitter F),
               onDisposedEmitter := rest'\<rparr>"
  let ?s1 = "s\<lparr>trace := trace s @ [Delivered f Disposed ?H]\<rparr>"
  let ?T = "replicate (Suc n) (Delivered g Disposed (ServiceOnDisposed L g c)) @
            map (Delivered g Disposed) rest @
            MapDelete L #
            concat (replicate n (map (Delivered g Disposed) rest))"
  let ?s2 = "s\<lparr>heap := (heap s)(g \<mapsto> ?C, f \<mapsto> ?F'),
              features := AList.delete L (features s),
              trace := trace s @ Delivered f Disposed ?H # ?T\<rparr>"
  have cb: "callbacks Disposed f s = ?H # rest'"
    using assms(6,7) by (simp add: callbacks_def)
  have pre: "heap ?s1 g = Some G" "map_of (features ?s1) L = Some g"
    using assms(1,5) by simp_all
  have handler: "final (invoke (Suc n) ?H ?s1) = ?s2"
  proof (cases n)
    case 0
    have "dispose (Suc 0) g ?s1 =
        Done (?s1\<lparr>heap := (heap ?s1)(g \<mapsto> ?C),
                  trace := trace ?s1 @ Delivered g Disposed (ServiceOnDisposed L g c) #
                    map (Delivered g Disposed) rest\<rparr>)"
      using pre assms(2-4) by (intro dispose_of_mapped_feature_once) simp_all
    then show ?thesis
      using 0 pre(2) assms(5,6,7,10)
      by (cases F)
        (simp add: features_delete_def toDisposeOnFeatureDispose_dispose_def log_def
          del: dispose.simps)
  next
    case (Suc m)
    have "dispose (Suc (Suc m)) g ?s1 =
        Done (?s1\<lparr>heap := (heap ?s1)(g \<mapsto> ?C),
                  features := AList.delete L (features ?s1),
                  trace := trace ?s1 @
                    replicate (Suc (Suc m)) (Delivered g Disposed (ServiceOnDisposed L g c)) @
                    map (Delivered g Disposed) rest @
                    MapDelete L #
                    concat (replicate (Suc m) (map (Delivered g Disposed) rest))\<rparr>)"
      using pre assms(2-4) by (intro dispose_of_mapped_feature) simp_all
    then show ?thesis
      using Suc pre(2) assms(6,7,10)
      by (cases F)
        (simp add: features_delete_def toDisposeOnFeatureDispose_dispose_def log_def
          delete_conv del: dispose.simps)
  qed
  then have "fire (\<lambda>h s'. invoke (Suc n) h s') f Disposed (?H # rest') s =
             fire (\<lambda>h s'. invoke (Suc n) h s') f Disposed rest' ?s2"
    by (simp add: log_def del: invoke.simps replicate.simps)
  also have "\<dots> = Done (?s2\<lparr>trace := trace ?s2 @ map (Delivered f Disposed) rest'\<rparr>)"
    using assms(8) by (rule fire_only_observers)
  finally have fired: "fire (\<lambda>h s'. invoke (Suc n) h s') f Disposed (?H # rest') s =
             Done (?s2\<lparr>trace := trace ?s2 @ map (Delivered f Disposed) rest'\<rparr>)" .
  have "TextDocumentFeature_dispose f
          (?s2\<lparr>trace := trace ?s2 @ map (Delivered f Disposed) rest'\<rparr>) =
        ?s2\<lparr>trace := trace ?s2 @ map (Delivered f Disposed) rest'\<rparr>"
    using assms(9) by (intro TextDocumentFeature_dispose_without_providers [where F = ?F']) simp_all
  then show ?thesis
    by (simp add: cb fired del: fire.simps replicate.simps)
qed

text \<open>
  The second \<^verbatim>\<open>java\<close> client never negotiated and is disposed; the first one, which
  negotiated, loses its entry.
\<close>

theorem disposed_event_of_unmapped_feature_evicts_mapped_one_witness:
  "dispose 3 1
     (createNewFeature 1 ''java''
        (final (initialize 0 0 (Flag True) (JArr [JStr ''java''])
                 (createNewFeature 0 ''java'' empty_state)))) =
   Done
     \<lparr>heap = (\<lambda>f. None)
        (0 \<mapsto> \<lparr>languageId = ''java'',
                onInitializedEmitter = [],
                onDisposedEmitter = [],
                providers = []\<rparr>,
         1 \<mapsto> \<lparr>languageId = ''java'',
                onInitializedEmitter = [],
                onDisposedEmitter = [],
                providers = []\<rparr>),
      features = [],
      collections = 2,
      uuids = 1,
      trace = [Delivered 0 Initialized (ServiceOnInitialized ''java'' 0 0),
               MapSet ''java'' 0,
               Registered 0 0 (JObj [(''documentSelector'', JArr [JStr ''java''])]),
               Delivered 1 Disposed (ServiceOnDisposed ''java'' 1 1),
               Delivered 0 Disposed (ServiceOnDisposed ''java'' 0 0),
               Delivered 0 Disposed (ServiceOnDisposed ''java'' 0 0),
               MapDelete ''java'']\<rparr>"
proof -
  let ?s = "createNewFeature 1 ''java''
        (final (initialize 0 0 (Flag True) (JArr [JStr ''java''])
                 (createNewFeature 0 ''java'' empty_state)))"
  let ?G = "\<lparr>languageId = ''java'',
                onInitializedEmitter = [ServiceOnInitialized ''java'' 0 0],
                onDisposedEmitter = [ServiceOnDisposed ''java'' 0 0],
                providers = [(0, JObj [(''documentSelector'', JArr [JStr ''java''])])]\<rparr>"
  let ?F = "\<lparr>languageId = ''java'',
                onInitializedEmitter = [ServiceOnInitialized ''java'' 1 1],
                onDisposedEmitter = [ServiceOnDisposed ''java'' 1 1],
                providers = []\<rparr>"
  have s: "?s = \<lparr>heap = (\<lambda>f. None)(0 \<mapsto> ?G, 1 \<mapsto> ?F),
      features = [(''java'', 0)],
      collections = 2,
      uuids = 1,
      trace = [Delivered 0 Initialized (ServiceOnInitialized ''java'' 0 0),
               MapSet ''java'' 0,
               Registered 0 0 (JObj [(''documentSelector'', JArr [JStr ''java''])])]\<rparr>"
    by (simp add: createNewFeature_def new_TypeHierarchyFeature_def register_def subscribe_def
        initialize_def callbacks_def empty_state_def log_def features_set_def
        TextDocumentFeature_register_def Let_def)
  have h1: "heap ?s 0 = Some ?G" unfolding s by simp
  have h2: "onDisposedEmitter ?G = ServiceOnDisposed ''java'' 0 0 # []" by simp
  have h3: "\<forall>h\<in>set []. is_Observer h" by simp
  have h4: "providers ?G \<noteq> []" by simp
  have h5: "map_of (features ?s) ''java'' = Some 0" unfolding s by simp
  have h6: "heap ?s 1 = Some ?F" unfolding s by simp
  have h7: "onDisposedEmitter ?F = ServiceOnDisposed ''java'' 1 1 # []" by simp
  have h9: "providers ?F = []" by simp
  have h10: "(1::nat) \<noteq> 0" by simp
  have three: "(3::nat) = Suc (Suc (Suc 0))" by simp
  show ?thesis
    using disposed_event_of_unmapped_feature_evicts_mapped_one
      [OF h1 h2 h3 h4 h5 h6 h7 h3 h9 h10, of "Suc 0"]
    unfolding s three by (simp del: dispose.simps)
qed

section \<open>Negotiation\<close>

text \<open>
  C4, as stated, fails: a second \<open>initialize\<close> with the same capability and selector
  delivers Initialized again and registers again, under a new identifier.
\<close>

theorem second_initialize_refires_counterexample:
  "trace (final (andThen
      (initialize 0 0 (Flag True) (JArr [JStr ''java''])
         (subscribe Initialized 0 (Observer 1) (new_TypeHierarchyFeature 0 ''java'' empty_state)))
      (initialize 0 0 (Flag True) (JArr [JStr ''java'']))))
   = [Delivered 0 Initialized (Observer 1),
      Registered 0 0 (JObj [(''documentSelector'', JArr [JStr ''java''])]),
      Delivered 0 Initialized (Observer 1),
      Registered 0 1 (JObj [(''documentSelector'', JArr [JStr ''java''])])]"
  by (simp add: initialize_def callbacks_def subscribe_def new_TypeHierarchyFeature_def
      empty_state_def log_def TextDocumentFeature_register_def Let_def)

text \<open>
  C4, amended. For a feature whose Initialized subscribers only take note of the event:
  every call of \<open>initialize\<close> with a document selector and a supported capability
  delivers Initialized to all subscribers and adds a registration under the next
  identifier, the second call exactly as the first; a call without a selector or without
  the capability changes nothing.
\<close>

theorem every_initialize_fires_and_registers:
  assumes "heap s f = Some F"
    and "\<forall>h\<in>set (onInitializedEmitter F). is_Observer h"
  shows "(truthy documentSelector \<and> supported typeHierarchy \<longrightarrow>
           andThen (initialize n f typeHierarchy documentSelector s)
                   (initialize m f typeHierarchy documentSelector) =
           Done (s\<lparr>heap := (heap s)(f \<mapsto>
                     F\<lparr>providers :=
                         AList.update (Suc (uuids s))
                           (registerOptions documentSelector typeHierarchy)
                           (AList.update (uuids s)
                              (registerOptions documentSelector typeHierarchy) (providers F))\<rparr>),
                   uuids := Suc (Suc (uuids s)),
                   trace := trace s @
                     map (Delivered f Initialized) (onInitializedEmitter F) @
                     [Registered f (uuids s) (registerOptions documentSelector typeHierarchy)] @
                     map (Delivered f Initialized) (onInitializedEmitter F) @
                     [Registered f (Suc (uuids s))
                        (registerOptions documentSelector typeHierarchy)]\<rparr>)) \<and>
         (\<not> truthy documentSelector \<or> \<not> supported typeHierarchy \<longrightarrow>
           initialize n f typeHierarchy documentSelector s = Done s)"
proof (intro conjI impI)
  assume ok: "truthy documentSelector \<and> supported typeHierarchy"
  let ?opts = "registerOptions documentSelector typeHierarchy"
  let ?F1 = "F\<lparr>providers := AList.update (uuids s) ?opts (providers F)\<rparr>"
  let ?s1 = "s\<lparr>heap := (heap s)(f \<mapsto> ?F1),
               uuids := Suc (uuids s),
               trace := trace s @ map (Delivered f Initialized) (onInitializedEmitter F) @
                 [Registered f (uuids s) ?opts]\<rparr>"
  have first: "initialize n f typeHierarchy documentSelector s = Done ?s1"
    using assms ok by (intro initialize_only_observers) simp_all
  have "heap ?s1 f = Some ?F1" "\<forall>h\<in>set (onInitializedEmitter ?F1). is_Observer h"
    using assms(2) by simp_all
  then have "initialize m f typeHierarchy documentSelector ?s1 =
           Done (?s1\<lparr>heap := (heap ?s1)(f \<mapsto>
                     ?F1\<lparr>providers := AList.update (uuids ?s1) ?opts (providers ?F1)\<rparr>),
                   uuids := Suc (uuids ?s1),
                   trace := trace ?s1 @ map (Delivered f Initialized) (onInitializedEmitter ?F1) @
                     [Registered f (uuids ?s1) ?opts]\<rparr>)"
    using ok by (intro initialize_only_observers) simp_all
  with first show "andThen (initialize n f typeHierarchy documentSelector s)
                   (initialize m f typeHierarchy documentSelector) =
           Done (s\<lparr>heap := (heap s)(f \<mapsto>
                     F\<lparr>providers :=
                         AList.update (Suc (uuids s)) ?opts
                           (AList.update (uuids s) ?opts (providers F))\<rparr>),
                   uuids := Suc (Suc (uuids s)),
                   trace := trace s @
                     map (Delivered f Initialized) (onInitializedEmitter F) @
                     [Registered f (uuids s) ?opts] @
                     map (Delivered f Initialized) (onInitializedEmitter F) @
                     [Registered f (Suc (uuids s)) ?opts]\<rparr>)"
    by simp
next
  assume "\<not> truthy documentSelector \<or> \<not> supported typeHierarchy"
  then show "initialize n f typeHierarchy documentSelector s = Done s"
    by (auto simp add: initialize_def)
qed

text \<open>Two subscribers, a server that sends registration options, and one that declines.\<close>

theorem every_initialize_fires_and_registers_witness:
  "andThen
     (initialize 0 7 (Options [(''id'', JStr ''th'')]) (JStr ''go'')
        (subscribe Initialized 7 (Observer 2)
           (subscribe Initialized 7 (Observer 1)
              (new_TypeHierarchyFeature 7 ''go'' empty_state))))
     (initialize 0 7 (Options [(''id'', JStr ''th'')]) (JStr ''go'')) =
   Done \<lparr>heap = (\<lambda>f. None)
            (7 \<mapsto> \<lparr>languageId = ''go'',
                    onInitializedEmitter = [Observer 1, Observer 2],
                    onDisposedEmitter = [],
                    providers =
                      [(0, JObj [(''documentSelector'', JStr ''go''), (''id'', JStr ''th'')]),
                       (1, JObj [(''documentSelector'', JStr ''go''), (''id'', JStr ''th'')])]\<rparr>),
          features = [],
          collections = 0,
          uuids = 2,
          trace =
            [Delivered 7 Initialized (Observer 1),
             Delivered 7 Initialized (Observer 2),
             Registered 7 0 (JObj [(''documentSelector'', JStr ''go''), (''id'', JStr ''th'')]),
             Delivered 7 Initialized (Observer 1),
             Delivered 7 Initialized (Observer 2),
             Registered 7 1 (JObj [(''documentSelector'', JStr ''go''), (''id'', JStr ''th'')])]\<rparr> \<and>
   initialize 0 7 (Flag False) (JStr ''go'')
        (subscribe Initialized 7 (Observer 2)
           (subscribe Initialized 7 (Observer 1)
              (new_TypeHierarchyFeature 7 ''go'' empty_state))) =
   Done \<lparr>heap = (\<lambda>f. None)
            (7 \<mapsto> \<lparr>languageId = ''go'',
                    onInitializedEmitter = [Observer 1, Observer 2],
                    onDisposedEmitter = [],
                    providers = []\<rparr>),
          features = [],
          collections = 0,
          uuids = 0,
          trace = []\<rparr>"
proof -
  let ?s = "subscribe Initialized 7 (Observer 2)
           (subscribe Initialized 7 (Observer 1)
              (new_TypeHierarchyFeature 7 ''go'' empty_state))"
  let ?F = "\<lparr>languageId = ''go'', onInitializedEmitter = [Observer 1, Observer 2],
             onDisposedEmitter = [], providers = []\<rparr>"
  have s: "?s = \<lparr>heap = (\<lambda>f. None)(7 \<mapsto> ?F), features = [], collections = 0, uuids = 0,
                  trace = []\<rparr>"
    by (simp add: subscribe_def new_TypeHierarchyFeature_def empty_state_def)
  have h1: "heap ?s 7 = Some ?F" unfolding s by simp
  have h2: "\<forall>h\<in>set (onInitializedEmitter ?F). is_Observer h" by simp
  show ?thesis
    using every_initialize_fires_and_registers [OF h1 h2,
        of "JStr ''go''" "Options [(''id'', JStr ''th'')]" 0 0]
      every_initialize_fires_and_registers [OF h1 h2, of "JStr ''go''" "Flag False" 0 0]
    unfolding s by simp
qed

text \<open>
  C5, as stated, fails: when the first language client negotiates, Initialized is
  delivered (and the service has installed the feature) before the registration is made.
\<close>

theorem initialized_fires_before_registration_counterexample:
  "trace (final (initialize 0 0 (Flag True) (JArr [JStr ''java''])
                   (createNewFeature 0 ''java'' empty_state)))
   = [Delivered 0 Initialized (ServiceOnInitialized ''java'' 0 0),
      MapSet ''java'' 0,
      Registered 0 0 (JObj [(''documentSelector'', JArr [JStr ''java''])])]"
  by (simp add: createNewFeature_def new_TypeHierarchyFeature_def register_def subscribe_def
      initialize_def callbacks_def empty_state_def log_def features_set_def
      TextDocumentFeature_register_def Let_def)

text \<open>
  C5, amended. A feature registered with the service, for a language without a mapped
  feature, negotiates successfully: Initialized is delivered first, to the service (which
  installs the feature) and then to the other subscribers; only after that the next
  identifier is drawn and the registration, with the selector merged into the server's
  options, is made.
\<close>

theorem initialized_fires_before_registration:
  assumes "heap s f = Some F"
    and "onInitializedEmitter F = ServiceOnInitialized L f c # obs"
    and "\<forall>h\<in>set obs. is_Observer h"
    and "map_of (features s) L = None"
    and "truthy documentSelector"
    and "supported typeHierarchy"
  shows "initialize n f typeHierarchy documentSelector s =
           Done (s\<lparr>heap := (heap s)(f \<mapsto>
                     F\<lparr>providers := AList.update (uuids s)
                          (registerOptions documentSelector typeHierarchy) (providers F)\<rparr>),
                   features := AList.update L f (features s),
                   uuids := Suc (uuids s),
                   trace := trace s @
                     [Delivered f Initialized (ServiceOnInitialized L f c), MapSet L f] @
                     map (Delivered f Initialized) obs @
                     [Registered f (uuids s) (registerOptions documentSelector typeHierarchy)]\<rparr>)"
proof -
  let ?H = "ServiceOnInitialized L f c"
  let ?s1 = "features_set L f (log (Delivered f Initialized ?H) s)"
  have cb: "callbacks Initialized f s = ?H # obs"
    using assms(1,2) by (simp add: callbacks_def)
  have "fire (\<lambda>h s'. invoke n h s') f Initialized (?H # obs) s =
        fire (\<lambda>h s'. invoke n h s') f Initialized obs ?s1"
    using assms(4) by (simp add: log_def)
  also have "\<dots> = Done (?s1\<lparr>trace := trace ?s1 @ map (Delivered f Initialized) obs\<rparr>)"
    using assms(3) by (rule fire_only_observers)
  finally show ?thesis
    using cb assms(1,5,6)
    by (simp add: initialize_def TextDocumentFeature_register_def log_def features_set_def Let_def)
qed

text \<open>A feature of the service with one more subscriber.\<close>

theorem initialized_fires_before_registration_witness:
  "initialize 0 4 (Flag True) (JArr [JStr ''go''])
     (subscribe Initialized 4 (Observer 9) (createNewFeature 4 ''go'' empty_state)) =
   Done \<lparr>heap = (\<lambda>f. None)
            (4 \<mapsto> \<lparr>languageId = ''go'',
                    onInitializedEmitter = [ServiceOnInitialized ''go'' 4 0, Observer 9],
                    onDisposedEmitter = [ServiceOnDisposed ''go'' 4 0],
                    providers = [(0, JObj [(''documentSelector'', JArr [JStr ''go''])])]\<rparr>),
          features = [(''go'', 4)],
          collections = 1,
          uuids = 1,
          trace =
            [Delivered 4 Initialized (ServiceOnInitialized ''go'' 4 0),
             MapSet ''go'' 4,
             Delivered 4 Initialized (Observer 9),
             Registered 4 0 (JObj [(''documentSelector'', JArr [JStr ''go''])])]\<rparr>"
proof -
  let ?s = "subscribe Initialized 4 (Observer 9) (createNewFeature 4 ''go'' empty_state)"
  let ?F = "\<lparr>languageId = ''go'',
             onInitializedEmitter = [ServiceOnInitialized ''go'' 4 0, Observer 9],
             onDisposedEmitter = [ServiceOnDisposed ''go'' 4 0], providers = []\<rparr>"
  have s: "?s = \<lparr>heap = (\<lambda>f. None)(4 \<mapsto> ?F), features = [], collections = 1, uuids = 0,
                  trace = []\<rparr>"
    by (simp add: subscribe_def createNewFeature_def register_def new_TypeHierarchyFeature_def
        empty_state_def Let_def)
  have h1: "heap ?s 4 = Some ?F" unfolding s by simp
  have h2: "onInitializedEmitter ?F = ServiceOnInitialized ''go'' 4 0 # [Observer 9]" by simp
  have h3: "\<forall>h\<in>set [Observer 9]. is_Observer h" by simp
  have h4: "map_of (features ?s) ''go'' = None" unfolding s by simp
  have h5: "truthy (JArr [JStr ''go''])" by simp
  have h6: "supported (Flag True)" by simp
  show ?thesis
    using initialized_fires_before_registration [OF h1 h2 h3 h4 h5 h6, of 0]
    unfolding s by simp
qed

section \<open>Disposal\<close>

text \<open>
  C6, as stated, fails: disposing a feature before it was initialized delivers Disposed
  to its subscribers, and disposing it a second time delivers Disposed again to the
  subscribers that are left.
\<close>

theorem dispose_before_initialization_fires_counterexample:
  "trace (final (dispose 1 0
      (subscribe Disposed 0 (Observer 1) (createNewFeature 0 ''java'' empty_state))))
   = [Delivered 0 Disposed (ServiceOnDisposed ''java'' 0 0),
      Delivered 0 Disposed (Observer 1)] \<and>
   trace (final (andThen
      (dispose 1 0 (subscribe Disposed 0 (Observer 1) (createNewFeature 0 ''java'' empty_state)))
      (dispose 1 0)))
   = [Delivered 0 Disposed (ServiceOnDisposed ''java'' 0 0),
      Delivered 0 Disposed (Observer 1),
      Delivered 0 Disposed (Observer 1)]"
  by (simp add: createNewFeature_def new_TypeHierarchyFeature_def register_def subscribe_def
      callbacks_def empty_state_def log_def toDisposeOnFeatureDispose_dispose_def
      features_delete_def TextDocumentFeature_dispose_def Let_def)

text \<open>
  C6, amended. \<open>dispose\<close> has no guard: every call returns and delivers Disposed to the
  subscribers the emitter has at that moment, also before any negotiation. What ends the
  notifications is the release of subscribers. For a feature \<open>f\<close> and subscribers
  \<open>rest\<close> that only take note of the event:
  \<^item> with no other subscriber, a feature without a registration delivers Disposed to
    each of them on the first and again on the second \<open>dispose\<close>; a feature with a
    registration closes its emitters in the first \<open>dispose\<close> and delivers nothing in
    the second;
  \<^item> a feature of the service that never negotiated, its language without a mapped
    feature, delivers Disposed to the service's handler on the first \<open>dispose\<close> only
    (the handler releases its subscriptions), and to each other subscriber on the first
    and again on the second;
  \<^item> a feature of the service that negotiated and is mapped returns from its first
    \<open>dispose\<close> with both emitters closed and its entry deleted; the second
    \<open>dispose\<close> delivers nothing and changes nothing.
\<close>

theorem every_dispose_fires:
  assumes "heap s f = Some F"
    and "\<forall>h\<in>set rest. is_Observer h"
  shows "(onDisposedEmitter F = rest \<longrightarrow>
            andThen (dispose (Suc n) f s) (dispose (Suc m) f) =
            Done (if providers F = []
                  then s\<lparr>trace := trace s @
                           map (Delivered f Disposed) rest @
                           map (Delivered f Disposed) rest\<rparr>
                  else s\<lparr>heap := (heap s)(f \<mapsto>
                             F\<lparr>onInitializedEmitter := [], onDisposedEmitter := [],
                               providers := []\<rparr>),
                         trace := trace s @ map (Delivered f Disposed) rest\<rparr>)) \<and>
         (onDisposedEmitter F = ServiceOnDisposed L f c # rest \<and> providers F = [] \<and>
          map_of (features s) L = None \<longrightarrow>
            andThen (dispose (Suc n) f s) (dispose (Suc m) f) =
            Done (s\<lparr>heap := (heap s)(f \<mapsto>
                      F\<lparr>onInitializedEmitter :=
                          remove1 (ServiceOnInitialized L f c) (onInitializedEmitter F),
                        onDisposedEmitter := rest\<rparr>),
                    trace := trace s @
                      Delivered f Disposed (ServiceOnDisposed L f c) #
                      map (Delivered f Disposed) rest @
                      map (Delivered f Disposed) rest\<rparr>)) \<and>
         (onDisposedEmitter F = ServiceOnDisposed L f c # rest \<and> providers F \<noteq> [] \<and>
          map_of (features s) L = Some f \<longrightarrow>
            andThen (dispose (Suc (Suc n)) f s) (dispose (Suc m) f) =
            Done (final (dispose (Suc (Suc n)) f s)) \<and>
            callbacks Initialized f (final (dispose (Suc (Suc n)) f s)) = [] \<and>
            callbacks Disposed f (final (dispose (Suc (Suc n)) f s)) = [] \<and>
            map_of (features (final (dispose (Suc (Suc n)) f s))) L = None)"
proof (intro conjI impI)
  assume only: "onDisposedEmitter F = rest"
  show "andThen (dispose (Suc n) f s) (dispose (Suc m) f) =
            Done (if providers F = []
                  then s\<lparr>trace := trace s @
                           map (Delivered f Disposed) rest @
                           map (Delivered f Disposed) rest\<rparr>
                  else s\<lparr>heap := (heap s)(f \<mapsto>
                             F\<lparr>onInitializedEmitter := [], onDisposedEmitter := [],
                               providers := []\<rparr>),
                         trace := trace s @ map (Delivered f Disposed) rest\<rparr>)"
  proof (cases "providers F = []")
    case True
    let ?s1 = "s\<lparr>trace := trace s @ map (Delivered f Disposed) rest\<rparr>"
    have first: "dispose (Suc n) f s = Done ?s1"
      using dispose_only_observers [of s f F n] assms only True
      by (simp add: TextDocumentFeature_dispose_def)
    have "dispose (Suc m) f ?s1 =
        Done (TextDocumentFeature_dispose f
                (?s1\<lparr>trace := trace ?s1 @ map (Delivered f Disposed) (onDisposedEmitter F)\<rparr>))"
      using assms only by (intro dispose_only_observers) simp_all
    with first show ?thesis
      using True assms(1) only by (simp add: TextDocumentFeature_dispose_def)
  next
    case False
    let ?F1 = "F\<lparr>onInitializedEmitter := [], onDisposedEmitter := [], providers := []\<rparr>"
    let ?s1 = "s\<lparr>heap := (heap s)(f \<mapsto> ?F1),
                 trace := trace s @ map (Delivered f Disposed) rest\<rparr>"
    have first: "dispose (Suc n) f s = Done ?s1"
      using dispose_only_observers [of s f F n] assms only False
      by (simp add: TextDocumentFeature_dispose_def)
    have "dispose (Suc m) f ?s1 = Done ?s1"
      by (intro dispose_without_subscribers [where F = ?F1]) simp_all
    with first show ?thesis
      using False by simp
  qed
next
  assume pre: "onDisposedEmitter F = ServiceOnDisposed L f c # rest \<and> providers F = [] \<and>
          map_of (features s) L = None"
  let ?F' = "F\<lparr>onInitializedEmitter :=
                 remove1 (ServiceOnInitialized L f c) (onInitializedEmitter F),
               onDisposedEmitter := rest\<rparr>"
  let ?s1 = "s\<lparr>heap := (heap s)(f \<mapsto> ?F'),
               trace := trace s @ Delivered f Disposed (ServiceOnDisposed L f c) #
                 map (Delivered f Disposed) rest\<rparr>"
  have first: "dispose (Suc n) f s = Done ?s1"
    using assms pre by (intro dispose_of_unmapped_service_feature) simp_all
  have "dispose (Suc m) f ?s1 =
      Done (TextDocumentFeature_dispose f
              (?s1\<lparr>trace := trace ?s1 @ map (Delivered f Disposed) (onDisposedEmitter ?F')\<rparr>))"
    using assms(2) by (intro dispose_only_observers) simp_all
  moreover have "TextDocumentFeature_dispose f
              (?s1\<lparr>trace := trace ?s1 @ map (Delivered f Disposed) (onDisposedEmitter ?F')\<rparr>) =
            ?s1\<lparr>trace := trace ?s1 @ map (Delivered f Disposed) (onDisposedEmitter ?F')\<rparr>"
    using pre by (intro TextDocumentFeature_dispose_without_providers [where F = ?F']) simp_all
  ultimately show "andThen (dispose (Suc n) f s) (dispose (Suc m) f) =
            Done (s\<lparr>heap := (heap s)(f \<mapsto> ?F'),
                    trace := trace s @
                      Delivered f Disposed (ServiceOnDisposed L f c) #
                      map (Delivered f Disposed) rest @
                      map (Delivered f Disposed) rest\<rparr>)"
    using first by (simp del: dispose.simps)
next
  assume pre: "onDisposedEmitter F = ServiceOnDisposed L f c # rest \<and> providers F \<noteq> [] \<and>
          map_of (features s) L = Some f"
  let ?C = "F\<lparr>onInitializedEmitter := [], onDisposedEmitter := [], providers := []\<rparr>"
  let ?s1 = "s\<lparr>heap := (heap s)(f \<mapsto> ?C),
               features := AList.delete L (features s),
               trace := trace s @
                 replicate (Suc (Suc n)) (Delivered f Disposed (ServiceOnDisposed L f c)) @
                 map (Delivered f Disposed) rest @
                 MapDelete L #
                 concat (replicate (Suc n) (map (Delivered f Disposed) rest))\<rparr>"
  have first: "dispose (Suc (Suc n)) f s = Done ?s1"
    using assms pre by (intro dispose_of_mapped_feature) simp_all
  have second: "dispose (Suc m) f ?s1 = Done ?s1"
    by (intro dispose_without_subscribers [where F = ?C]) simp_all
  show "andThen (dispose (Suc (Suc n)) f s) (dispose (Suc m) f) =
            Done (final (dispose (Suc (Suc n)) f s))"
    by (simp add: first second del: dispose.simps replicate.simps)
  show "callbacks Initialized f (final (dispose (Suc (Suc n)) f s)) = []"
    by (simp add: first callbacks_def del: dispose.simps replicate.simps)
  show "callbacks Disposed f (final (dispose (Suc (Suc n)) f s)) = []"
    by (simp add: first callbacks_def del: dispose.simps replicate.simps)
  show "map_of (features (final (dispose (Suc (Suc n)) f s))) L = None"
    by (simp add: first delete_conv del: dispose.simps replicate.simps)
qed

text \<open>
  A feature made outside the service with one subscriber, a feature of the service before
  negotiation with one more subscriber, and a feature of the service after negotiation.
\<close>

theorem every_dispose_fires_witness:
  "andThen
     (dispose 1 3
        (subscribe Disposed 3 (Observer 5) (new_TypeHierarchyFeature 3 ''go'' empty_state)))
     (dispose 1 3) =
   Done \<lparr>heap = (\<lambda>f. None)
            (3 \<mapsto> \<lparr>languageId = ''go'', onInitializedEmitter = [],
                    onDisposedEmitter = [Observer 5], providers = []\<rparr>),
          features = [],
          collections = 0,
          uuids = 0,
          trace = [Delivered 3 Disposed (Observer 5), Delivered 3 Disposed (Observer 5)]\<rparr> \<and>
   andThen
     (dispose 1 0
        (subscribe Disposed 0 (Observer 1) (createNewFeature 0 ''java'' empty_state)))
     (dispose 1 0) =
   Done \<lparr>heap = (\<lambda>f. None)
            (0 \<mapsto> \<lparr>languageId = ''java'', onInitializedEmitter = [],
                    onDisposedEmitter = [Observer 1], providers = []\<rparr>),
          features = [],
          collections = 1,
          uuids = 0,
          trace = [Delivered 0 Disposed (ServiceOnDisposed ''java'' 0 0),
                   Delivered 0 Disposed (Observer 1),
                   Delivered 0 Disposed (Observer 1)]\<rparr> \<and>
   andThen
     (dispose 2 0
        (final (initialize 0 0 (Flag True) (JArr [JStr ''java''])
                  (createNewFeature 0 ''java'' empty_state))))
     (dispose 1 0) =
   Done (final (dispose 2 0
        (final (initialize 0 0 (Flag True) (JArr [JStr ''java''])
                  (createNewFeature 0 ''java'' empty_state))))) \<and>
   callbacks Initialized 0 (final (dispose 2 0
        (final (initialize 0 0 (Flag True) (JArr [JStr ''java''])
                  (createNewFeature 0 ''java'' empty_state))))) = [] \<and>
   callbacks Disposed 0 (final (dispose 2 0
        (final (initialize 0 0 (Flag True) (JArr [JStr ''java''])
                  (createNewFeature 0 ''java'' empty_state))))) = [] \<and>
   map_of (features (final (dispose 2 0
        (final (initialize 0 0 (Flag True) (JArr [JStr ''java''])
                  (createNewFeature 0 ''java'' empty_state)))))) ''java'' = None"
proof -
  let ?sa = "subscribe Disposed 3 (Observer 5) (new_TypeHierarchyFeature 3 ''go'' empty_state)"
  let ?Fa = "\<lparr>languageId = ''go'', onInitializedEmitter = [],
              onDisposedEmitter = [Observer 5], providers = []\<rparr>"
  have sa: "?sa = \<lparr>heap = (\<lambda>f. None)(3 \<mapsto> ?Fa), features = [], collections = 0, uuids = 0,
                    trace = []\<rparr>"
    by (simp add: subscribe_def new_TypeHierarchyFeature_def empty_state_def)
  let ?sb = "subscribe Disposed 0 (Observer 1) (createNewFeature 0 ''java'' empty_state)"
  let ?Fb = "\<lparr>languageId = ''java'',
              onInitializedEmitter = [ServiceOnInitialized ''java'' 0 0],
              onDisposedEmitter = [ServiceOnDisposed ''java'' 0 0, Observer 1],
              providers = []\<rparr>"
  have sb: "?sb = \<lparr>heap = (\<lambda>f. None)(0 \<mapsto> ?Fb), features = [], collections = 1, uuids = 0,
                    trace = []\<rparr>"
    by (simp add: subscribe_def createNewFeature_def register_def new_TypeHierarchyFeature_def
        empty_state_def Let_def)
  let ?sc = "final (initialize 0 0 (Flag True) (JArr [JStr ''java''])
                  (createNewFeature 0 ''java'' empty_state))"
  let ?Fc = "\<lparr>languageId = ''java'',
              onInitializedEmitter = [ServiceOnInitialized ''java'' 0 0],
              onDisposedEmitter = [ServiceOnDisposed ''java'' 0 0],
              providers = [(0, JObj [(''documentSelector'', JArr [JStr ''java''])])]\<rparr>"
  have sc: "?sc = \<lparr>heap = (\<lambda>f. None)(0 \<mapsto> ?Fc), features = [(''java'', 0)],
                    collections = 1, uuids = 1,
                    trace = [Delivered 0 Initialized (ServiceOnInitialized ''java'' 0 0),
                             MapSet ''java'' 0,
                             Registered 0 0
                               (JObj [(''documentSelector'', JArr [JStr ''java''])])]\<rparr>"
    by (simp add: createNewFeature_def new_TypeHierarchyFeature_def register_def subscribe_def
        initialize_def callbacks_def empty_state_def log_def features_set_def
        TextDocumentFeature_register_def Let_def)
  have a1: "heap ?sa 3 = Some ?Fa" unfolding sa by simp
  have a2: "\<forall>h\<in>set [Observer 5]. is_Observer h" by simp
  have b1: "heap ?sb 0 = Some ?Fb" unfolding sb by simp
  have b2: "\<forall>h\<in>set [Observer 1]. is_Observer h" by simp
  have c1: "heap ?sc 0 = Some ?Fc" unfolding sc by simp
  have c2: "\<forall>h\<in>set []. is_Observer h" by simp
  have A: "andThen (dispose 1 3 ?sa) (dispose 1 3) =
     Done \<lparr>heap = (\<lambda>f. None)(3 \<mapsto> ?Fa), features = [], collections = 0, uuids = 0,
            trace = [Delivered 3 Disposed (Observer 5), Delivered 3 Disposed (Observer 5)]\<rparr>"
    using every_dispose_fires [OF a1 a2, where n = 0 and m = 0] unfolding sa
    by (simp del: dispose.simps)
  have B: "andThen (dispose 1 0 ?sb) (dispose 1 0) =
     Done \<lparr>heap = (\<lambda>f. None)
              (0 \<mapsto> \<lparr>languageId = ''java'', onInitializedEmitter = [],
                      onDisposedEmitter = [Observer 1], providers = []\<rparr>),
            features = [], collections = 1, uuids = 0,
            trace = [Delivered 0 Disposed (ServiceOnDisposed ''java'' 0 0),
                     Delivered 0 Disposed (Observer 1),
                     Delivered 0 Disposed (Observer 1)]\<rparr>"
    using every_dispose_fires [OF b1 b2, where L = "''java''" and c = 0 and n = 0 and m = 0]
    unfolding sb by (simp del: dispose.simps)
  have C: "andThen (dispose 2 0 ?sc) (dispose 1 0) = Done (final (dispose 2 0 ?sc)) \<and>
           callbacks Initialized 0 (final (dispose 2 0 ?sc)) = [] \<and>
           callbacks Disposed 0 (final (dispose 2 0 ?sc)) = [] \<and>
           map_of (features (final (dispose 2 0 ?sc))) ''java'' = None"
    using every_dispose_fires [OF c1 c2, where L = "''java''" and c = 0 and n = 0 and m = 0]
    unfolding sc by (simp add: numeral_2_eq_2 del: dispose.simps)
  show ?thesis
    using A B C by blast
qed

end
